theory Spec2Isabelle
  imports Complex_Main
begin

section \<open>Numbers\<close>

text \<open>
  The engine computes with JavaScript numbers. The embedding reads a finite number as the
  real it denotes and every arithmetic operation as the exact operation on reals: rounding
  error and overflow of IEEE doubles are outside the model. Every division of the source
  that the model performs on reals has a divisor the source guards against zero (or a
  non-zero constant), so HOL's division agrees with the exact quotient there.

  Where the source tests an input with \<^verbatim>\<open>Number.isFinite\<close> or feeds a possibly infinite
  value into a comparison, the value has type \<open>jsnum\<close>, which adds NaN and the two
  infinities to the finite numbers.

  The IRR solver is the one place where the source guards its own intermediate results
  against overflow and division by zero. There the arithmetic is a parameter of the
  embedding: the solver is defined for an arbitrary sum, difference, product, quotient and
  power on \<open>jsnum\<close>, so that what is proved of it holds for the arithmetic of doubles as
  for exact arithmetic. The backtest instantiates it with the exact operations.
\<close>

datatype jsnum = Num real | NaN | PosInfinity | NegInfinity

fun isFinite :: "jsnum \<Rightarrow> bool" where
  "isFinite (Num _) = True"
| "isFinite _ = False"

text \<open>
  \<^verbatim>\<open>Math.abs\<close>, \<^verbatim>\<open>*\<close>, \<^verbatim>\<open><\<close>, \<^verbatim>\<open>></\<close> and \<^verbatim>\<open><=\<close> on possibly non-finite numbers.
\<close>

fun jabs :: "jsnum \<Rightarrow> jsnum" where
  "jabs (Num x) = Num \<bar>x\<bar>"
| "jabs NaN = NaN"
| "jabs PosInfinity = PosInfinity"
| "jabs NegInfinity = PosInfinity"

fun jmul :: "jsnum \<Rightarrow> jsnum \<Rightarrow> jsnum" where
  "jmul (Num x) (Num y) = Num (x * y)"
| "jmul NaN _ = NaN"
| "jmul _ NaN = NaN"
| "jmul (Num x) PosInfinity = (if x = 0 then NaN else if x > 0 then PosInfinity else NegInfinity)"
| "jmul (Num x) NegInfinity = (if x = 0 then NaN else if x > 0 then NegInfinity else PosInfinity)"
| "jmul PosInfinity (Num y) = (if y = 0 then NaN else if y > 0 then PosInfinity else NegInfinity)"
| "jmul NegInfinity (Num y) = (if y = 0 then NaN else if y > 0 then NegInfinity else PosInfinity)"
| "jmul PosInfinity PosInfinity = PosInfinity"
| "jmul PosInfinity NegInfinity = NegInfinity"
| "jmul NegInfinity PosInfinity = NegInfinity"
| "jmul NegInfinity NegInfinity = PosInfinity"

fun jlt :: "jsnum \<Rightarrow> jsnum \<Rightarrow> bool" where
  "jlt (Num x) (Num y) = (x < y)"
| "jlt NaN _ = False"
| "jlt _ NaN = False"
| "jlt NegInfinity NegInfinity = False"
| "jlt NegInfinity _ = True"
| "jlt PosInfinity _ = False"
| "jlt (Num x) PosInfinity = True"
| "jlt (Num x) NegInfinity = False"

definition jgt :: "jsnum \<Rightarrow> jsnum \<Rightarrow> bool" where
  "jgt a b = jlt b a"

definition jle :: "jsnum \<Rightarrow> jsnum \<Rightarrow> bool" where
  "jle a b \<longleftrightarrow> jlt a b \<or> (a = b \<and> a \<noteq> NaN)"

text \<open>
  Sum, difference, quotient and natural power of possibly non-finite numbers, exact on finite
  ones. A zero divisor is read as positive zero; \<^verbatim>\<open>Math.pow(x, 0)\<close> is 1 for every \<open>x\<close>.
\<close>

fun jneg :: "jsnum \<Rightarrow> jsnum" where
  "jneg (Num x) = Num (- x)"
| "jneg NaN = NaN"
| "jneg PosInfinity = NegInfinity"
| "jneg NegInfinity = PosInfinity"

fun jadd :: "jsnum \<Rightarrow> jsnum \<Rightarrow> jsnum" where
  "jadd (Num x) (Num y) = Num (x + y)"
| "jadd NaN _ = NaN"
| "jadd _ NaN = NaN"
| "jadd PosInfinity NegInfinity = NaN"
| "jadd NegInfinity PosInfinity = NaN"
| "jadd PosInfinity _ = PosInfinity"
| "jadd NegInfinity _ = NegInfinity"
| "jadd (Num x) PosInfinity = PosInfinity"
| "jadd (Num x) NegInfinity = NegInfinity"

definition jsub :: "jsnum \<Rightarrow> jsnum \<Rightarrow> jsnum" where
  "jsub a b = jadd a (jneg b)"

fun jdiv :: "jsnum \<Rightarrow> jsnum \<Rightarrow> jsnum" where
  "jdiv (Num x) (Num y) =
     (if y \<noteq> 0 then Num (x / y)
      else if x = 0 then NaN else if x > 0 then PosInfinity else NegInfinity)"
| "jdiv NaN _ = NaN"
| "jdiv _ NaN = NaN"
| "jdiv (Num x) PosInfinity = Num 0"
| "jdiv (Num x) NegInfinity = Num 0"
| "jdiv PosInfinity (Num y) = (if y \<ge> 0 then PosInfinity else NegInfinity)"
| "jdiv NegInfinity (Num y) = (if y \<ge> 0 then NegInfinity else PosInfinity)"
| "jdiv PosInfinity _ = NaN"
| "jdiv NegInfinity _ = NaN"

fun jpow :: "jsnum \<Rightarrow> nat \<Rightarrow> jsnum" where
  "jpow x 0 = Num 1"
| "jpow (Num x) n = Num (x ^ n)"
| "jpow NaN n = NaN"
| "jpow PosInfinity n = PosInfinity"
| "jpow NegInfinity n = (if odd n then NegInfinity else PosInfinity)"

text \<open>
  \<^verbatim>\<open>Number(x.toFixed(d))\<close> on a finite number: \<^verbatim>\<open>toFixed\<close> takes the integer \<open>n\<close> with
  \<open>n / 10^d\<close> closest to \<open>\<bar>x\<bar>\<close>, the larger one on a tie, and restores the sign; from
  \<open>10^21\<close> on it prints the number itself.
\<close>

definition toFixed :: "nat \<Rightarrow> real \<Rightarrow> real" where
  "toFixed d x =
     (if \<bar>x\<bar> \<ge> 10 ^ 21 then x
      else sgn x * (of_int \<lfloor>\<bar>x\<bar> * 10 ^ d + 1 / 2\<rfloor> / 10 ^ d))"

section \<open>Data model (types.ts)\<close>

datatype OptionType = CALL | PUT

datatype Side = BUY | SELL

datatype LegInstrument = OPTION | UNDERLYING

text \<open>
  \<^verbatim>\<open>StrategyLeg\<close>. The optional fields \<^verbatim>\<open>type\<close> and \<^verbatim>\<open>strike\<close> are options. The
  field \<^verbatim>\<open>contractSize\<close> is declared a number, but the engine reads it through
  \<^verbatim>\<open>contractSize || DEFAULT_CONTRACT_SIZE\<close>, which also accepts an absent value: \<open>None\<close>
  is the absent (undefined) contract size.
\<close>

record StrategyLeg =
  leg_id :: string
  instrument :: LegInstrument
  side :: Side
  optionType :: "OptionType option"
  strike :: "real option"
  premium :: real
  quantity :: real
  symbol :: string
  contractSize :: "real option"

record PayoffData =
  movePct :: real
  profit :: real

section \<open>Leg payoff (utils/strategyMath.ts)\<close>

definition DEFAULT_CONTRACT_SIZE :: real where
  "DEFAULT_CONTRACT_SIZE = 100"

definition PAYOFF_RANGE_PCT :: real where
  "PAYOFF_RANGE_PCT = 40"

definition PAYOFF_POINTS :: nat where
  "PAYOFF_POINTS = 320"

text \<open>
  \<^verbatim>\<open>contractSize || DEFAULT_CONTRACT_SIZE\<close>: the default replaces a falsy contract size,
  that is an absent one or zero; any other number, negative ones included, is kept.
\<close>

definition orDefault :: "real option \<Rightarrow> real" where
  "orDefault cs =
     (case cs of None \<Rightarrow> DEFAULT_CONTRACT_SIZE
      | Some c \<Rightarrow> if c = 0 then DEFAULT_CONTRACT_SIZE else c)"

definition calculateLegPayoff :: "StrategyLeg \<Rightarrow> real \<Rightarrow> real" where
  "calculateLegPayoff leg underlyingPrice =
     (let multiplier = orDefault (contractSize leg) in
      if instrument leg = UNDERLYING then
        (let move = underlyingPrice - premium leg;
             pnl = (if side leg = BUY then move else - move)
         in pnl * quantity leg * multiplier)
      else
        (case (optionType leg, strike leg) of
           (Some ty, Some k) \<Rightarrow>
             (let pnl = (if ty = CALL then max 0 (underlyingPrice - k) - premium leg
                         else max 0 (k - underlyingPrice) - premium leg);
                  pnl = (if side leg = SELL then - pnl else pnl)
              in pnl * quantity leg * multiplier)
         | _ \<Rightarrow> 0))"

text \<open>
  The reference definition of the specification, in its own words, for a leg whose
  contract size is \<open>c\<close>.
\<close>

definition payoffReference :: "StrategyLeg \<Rightarrow> real \<Rightarrow> real \<Rightarrow> real" where
  "payoffReference leg c p =
     (case instrument leg of
        UNDERLYING \<Rightarrow>
          (if side leg = BUY then p - premium leg else premium leg - p) * (quantity leg * c)
      | OPTION \<Rightarrow>
          (case (optionType leg, strike leg) of
             (Some CALL, Some k) \<Rightarrow>
               (if side leg = SELL then - (max 0 (p - k) - premium leg)
                else max 0 (p - k) - premium leg) * (quantity leg * c)
           | (Some PUT, Some k) \<Rightarrow>
               (if side leg = SELL then - (max 0 (k - p) - premium leg)
                else max 0 (k - p) - premium leg) * (quantity leg * c)
           | _ \<Rightarrow> 0))"

section \<open>Payoff curve and statistics (utils/strategyMath.ts)\<close>

text \<open>
  The inner loop \<^verbatim>\<open>for (const leg of legs) totalProfit += calculateLegPayoff(leg, price)\<close>
  of both curve builders, and the \<^verbatim>\<open>reduce\<close> that computes the spot profit.
\<close>

definition totalProfitAt :: "StrategyLeg list \<Rightarrow> real \<Rightarrow> real" where
  "totalProfitAt legs price =
     fold (\<lambda>leg totalProfit. totalProfit + calculateLegPayoff leg price) legs 0"

text \<open>
  \<^verbatim>\<open>generatePayoffData\<close>: the percentage-move sweep of the display curve. The loop index
  runs from \<open>0\<close> to \<open>PAYOFF_POINTS\<close> inclusive.
\<close>

definition generatePayoffData :: "StrategyLeg list \<Rightarrow> jsnum \<Rightarrow> PayoffData list" where
  "generatePayoffData legs currentPrice =
     (case currentPrice of
        Num cp \<Rightarrow>
          if length legs = 0 \<or> cp \<le> 0 then []
          else
            (let startPct = - PAYOFF_RANGE_PCT;
                 endPct = PAYOFF_RANGE_PCT;
                 span = endPct - startPct;
                 step = span / real PAYOFF_POINTS
             in map (\<lambda>i.
                  let move = startPct + step * real i;
                      price = cp * (1 + move / 100)
                  in \<lparr>movePct = toFixed 4 move,
                      profit = toFixed 4 (totalProfitAt legs price)\<rparr>)
                  [0..<PAYOFF_POINTS + 1])
      | _ \<Rightarrow> [])"

text \<open>\<^verbatim>\<open>number | 'Unlimited'\<close>.\<close>

datatype Bound = Unlimited | Value real

record StrategyStats =
  maxProfit :: Bound
  maxLoss :: Bound
  breakEvens :: "real list"
  netPremium :: real
  capitalAtRisk :: "real option"
  maxProfitPct :: "real option"
  maxLossPct :: "real option"
  spotPnl :: real

text \<open>
  One pass of the break-even loop at index \<open>i\<close>. The state is the key set and the list of
  break-evens. A key is the string \<^verbatim>\<open>rounded.toFixed(4)\<close>; two such strings are equal
  exactly when the numbers they print are, so the key is modelled by that number.
\<close>

definition breakEvenStep ::
  "PayoffData list \<Rightarrow> nat \<Rightarrow> real list \<times> real list \<Rightarrow> real list \<times> real list" where
  "breakEvenStep payoffData i st =
     (let left = payoffData ! i;
          right = payoffData ! (i + 1)
      in if (profit left \<le> 0 \<and> profit right > 0) \<or> (profit left \<ge> 0 \<and> profit right < 0) then
           (let delta = profit right - profit left;
                t = (if delta \<noteq> 0 then (0 - profit left) / delta else 0);
                move = movePct left + t * (movePct right - movePct left);
                rounded = toFixed 4 move;
                key = toFixed 4 rounded
            in if key \<in> set (fst st) then st
               else (fst st @ [key], snd st @ [rounded]))
         else st)"

definition scanBreakEvens :: "PayoffData list \<Rightarrow> real list" where
  "scanBreakEvens payoffData =
     snd (fold (breakEvenStep payoffData) [0..<length payoffData - 1] ([], []))"

definition legNetPremium :: "StrategyLeg \<Rightarrow> real \<Rightarrow> real" where
  "legNetPremium leg acc =
     (let multiplier = orDefault (contractSize leg);
          legPremium = premium leg * quantity leg * multiplier
      in acc + (if side leg = SELL then legPremium else - legPremium))"

definition calculateStrategyStats ::
  "StrategyLeg list \<Rightarrow> PayoffData list \<Rightarrow> real \<Rightarrow> StrategyStats" where
  "calculateStrategyStats legs payoffData currentPrice =
     (if length payoffData = 0 then
        \<lparr>maxProfit = Value 0, maxLoss = Value 0, breakEvens = [], netPremium = 0,
         capitalAtRisk = None, maxProfitPct = None, maxLossPct = None, spotPnl = 0\<rparr>
      else
        (let profits = map profit payoffData;
             minProfit = Min (set profits);
             maxProfitVal = Max (set profits);
             lastP = profits ! (length profits - 1);
             prev = (if length profits \<ge> 2 then profits ! (length profits - 2) else lastP);
             first = profits ! 0;
             second = (if length profits \<ge> 2 then profits ! 1 else first);
             leftSlope = second - first;
             rightSlope = lastP - prev;
             isMaxProfitUnlimited = (rightSlope > 0 \<and> lastP > 10000);
             isMaxLossUnlimited =
               ((leftSlope > 0 \<and> first < - 10000) \<or> (rightSlope < 0 \<and> lastP < - 10000));
             bes = sort (scanBreakEvens payoffData);
             netPrem = fold legNetPremium legs 0;
             spot = totalProfitAt legs currentPrice;
             maxP = (if isMaxProfitUnlimited then Unlimited else Value maxProfitVal);
             maxL = (if isMaxLossUnlimited then Unlimited else Value \<bar>minProfit\<bar>);
             risk = (if netPrem < 0 then Some \<bar>netPrem\<bar>
                     else case maxL of Value l \<Rightarrow> Some l | Unlimited \<Rightarrow> None);
             maxPPct = (case (maxP, risk) of
                          (Value v, Some c) \<Rightarrow> if c \<noteq> 0 \<and> c > 0 then Some (v / c * 100) else None
                        | _ \<Rightarrow> None);
             maxLPct = (case (maxL, risk) of
                          (Value l, Some c) \<Rightarrow> if c \<noteq> 0 \<and> c > 0 then Some (- l / c * 100) else None
                        | _ \<Rightarrow> None)
         in \<lparr>maxProfit = maxP, maxLoss = maxL, breakEvens = bes, netPremium = netPrem,
             capitalAtRisk = risk, maxProfitPct = maxPPct, maxLossPct = maxLPct,
             spotPnl = spot\<rparr>))"

text \<open>
  The two notions of the specification's break-even sentence, in its words: the linear
  interpolation of the zero crossing between two samples, and a crossing that counts an
  exact zero on either sample.
\<close>

definition moveAt0 :: "PayoffData \<Rightarrow> PayoffData \<Rightarrow> real" where
  "moveAt0 left right =
     movePct left +
     ((0 - profit left) / (profit right - profit left)) * (movePct right - movePct left)"

definition crossesZeroInclusive :: "PayoffData \<Rightarrow> PayoffData \<Rightarrow> bool" where
  "crossesZeroInclusive left right \<longleftrightarrow>
     profit left \<noteq> profit right \<and>
     ((profit left \<le> 0 \<and> profit right \<ge> 0) \<or> (profit left \<ge> 0 \<and> profit right \<le> 0))"

text \<open>The test of the source: an exact zero counts on the left sample only.\<close>

definition crossesZero :: "PayoffData \<Rightarrow> PayoffData \<Rightarrow> bool" where
  "crossesZero left right \<longleftrightarrow>
     (profit left \<le> 0 \<and> profit right > 0) \<or> (profit left \<ge> 0 \<and> profit right < 0)"

text \<open>
  Two small curves: one that crosses zero between its two samples, and one that ends on
  an exact zero.
\<close>

definition crossingCurve :: "PayoffData list" where
  "crossingCurve = [\<lparr>movePct = - 1, profit = - 5\<rparr>, \<lparr>movePct = 0, profit = 5\<rparr>]"

definition touchingCurve :: "PayoffData list" where
  "touchingCurve = [\<lparr>movePct = 0, profit = - 1\<rparr>, \<lparr>movePct = 1, profit = 0\<rparr>]"

text \<open>The rounded zero crossings among the first \<open>n\<close> pairs of samples.\<close>

definition crossings :: "PayoffData list \<Rightarrow> nat \<Rightarrow> real set" where
  "crossings payoffData n =
     {toFixed 4 (moveAt0 (payoffData ! i) (payoffData ! (i + 1))) | i.
        i < n \<and> crossesZero (payoffData ! i) (payoffData ! (i + 1))}"

section \<open>The absolute-price sweep\<close>

text \<open>
  The second \<^verbatim>\<open>generatePayoffData\<close> of the repository samples absolute prices around the
  current price, the option strikes and the underlying entry prices. Its points carry a
  \<^verbatim>\<open>price\<close> field. \<^verbatim>\<open>a || b\<close> on numbers takes \<open>b\<close> when \<open>a\<close> is zero.
\<close>

record PricePayoffData =
  price :: real
  profit :: real

definition orElse :: "real \<Rightarrow> real \<Rightarrow> real" where
  "orElse a b = (if a = 0 then b else a)"

definition referencePoints :: "StrategyLeg list \<Rightarrow> jsnum \<Rightarrow> real list" where
  "referencePoints legs currentPrice =
     (let optionStrikes = List.map_filter strike (filter (\<lambda>leg. instrument leg = OPTION) legs);
          underlyingEntries = map premium (filter (\<lambda>leg. instrument leg = UNDERLYING) legs);
          current = (case currentPrice of Num cp \<Rightarrow> [cp] | _ \<Rightarrow> [])
      in filter (\<lambda>val. val > 0) (current @ optionStrikes @ underlyingEntries))"

definition generatePayoffDataAbsolute ::
  "StrategyLeg list \<Rightarrow> jsnum \<Rightarrow> PricePayoffData list" where
  "generatePayoffDataAbsolute legs currentPrice =
     (if length legs = 0 then []
      else
        (let refs = referencePoints legs currentPrice
         in if length refs = 0 then []
            else
              (let minStrike = Min (set refs);
                   maxStrike = Max (set refs);
                   range = maxStrike - minStrike;
                   buffer = orElse (orElse (range * 0.5) (maxStrike * 0.2)) 1;
                   start = max 0 (minStrike - buffer);
                   end' = maxStrike + buffer;
                   points = (320 :: nat);
                   span = end' - start;
                   step = span / real points
               in map (\<lambda>i.
                    let p = start + step * real i
                    in \<lparr>price = toFixed 4 p,
                        PricePayoffData.profit = toFixed 4 (totalProfitAt legs p)\<rparr>)
                    [0..<points + 1])))"

section \<open>Backtest curve, interpolation and IRR (utils/backtest.ts)\<close>

definition WEEKLY_PERIODS_PER_MONTH :: real where
  "WEEKLY_PERIODS_PER_MONTH = 433 / 100"

record PayoffCurve =
  basePrice :: jsnum
  variations :: "real list"
  returns :: "real list"

datatype BacktestFrequency = WEEKLY | MONTHLY

definition calculateStrategyCost :: "StrategyLeg list \<Rightarrow> real" where
  "calculateStrategyCost legs =
     fold (\<lambda>leg acc.
       let multiplier = orDefault (contractSize leg);
           legPremium = premium leg * quantity leg * multiplier
       in acc + (if side leg = SELL then legPremium else - legPremium)) legs 0"

text \<open>
  \<^verbatim>\<open>buildPayoffCurve(legs, basePrice, rangePct = 0.3, points = 250)\<close>. The number of samples
  \<open>points\<close> is a natural number; the loop index runs over \<open>0 \<le> i < points\<close>.
\<close>

definition buildPayoffCurve ::
  "StrategyLeg list \<Rightarrow> jsnum \<Rightarrow> real \<Rightarrow> nat \<Rightarrow> PayoffCurve" where
  "buildPayoffCurve legs base rangePct points =
     (case base of
        Num bp \<Rightarrow>
          if length legs = 0 \<or> bp \<le> 0 then
            \<lparr>basePrice = base, variations = [], returns = []\<rparr>
          else
            (let step = (rangePct * 2) / max 1 (real points - 1);
                 variation = (\<lambda>i. - rangePct + step * real i);
                 price = (\<lambda>i. bp * (1 + variation i))
             in \<lparr>basePrice = base,
                 variations = map (\<lambda>i. toFixed 6 (variation i)) [0..<points],
                 returns = map (\<lambda>i. toFixed 4 (totalProfitAt legs (price i))) [0..<points]\<rparr>)
      | _ \<Rightarrow> \<lparr>basePrice = base, variations = [], returns = []\<rparr>)"

text \<open>
  The call of the backtest popup, \<^verbatim>\<open>buildPayoffCurve(legs, currentPrice)\<close>, which takes
  both defaults. Its result is the interpolation table handed to \<^verbatim>\<open>runBacktest\<close>.
\<close>

definition payoffCurve :: "StrategyLeg list \<Rightarrow> jsnum \<Rightarrow> PayoffCurve" where
  "payoffCurve legs currentPrice = buildPayoffCurve legs currentPrice (3 / 10) 250"

text \<open>
  The binary search of \<^verbatim>\<open>linearInterpolate\<close>. \<open>Inl y\<close> is the early return of an exact
  hit, \<open>Inr right\<close> the value of \<^verbatim>\<open>right\<close> when the loop ends.
\<close>

function bsearch :: "real \<Rightarrow> real list \<Rightarrow> real list \<Rightarrow> int \<Rightarrow> int \<Rightarrow> real + int" where
  "bsearch x xs ys left right =
     (if left \<le> right then
        (let mid = (left + right) div 2
         in if xs ! nat mid = x then Inl (ys ! nat mid)
            else if xs ! nat mid < x then bsearch x xs ys (mid + 1) right
            else bsearch x xs ys left (mid - 1))
      else Inr right)"
  by pat_completeness auto
termination
  by (relation "measure (\<lambda>(x, xs, ys, left, right). nat (right - left + 1))") auto

definition linearInterpolate :: "real \<Rightarrow> real list \<Rightarrow> real list \<Rightarrow> real" where
  "linearInterpolate x xs ys =
     (if length xs = 0 \<or> length xs \<noteq> length ys then 0
      else if x \<le> xs ! 0 then ys ! 0
      else if x \<ge> xs ! (length xs - 1) then ys ! (length ys - 1)
      else
        (case bsearch x xs ys 0 (int (length xs) - 1) of
           Inl y \<Rightarrow> y
         | Inr right \<Rightarrow>
             (let idx = nat (max 0 right);
                  x0 = xs ! idx;
                  x1 = xs ! (idx + 1);
                  y0 = ys ! idx;
                  y1 = ys ! (idx + 1)
              in if x1 = x0 then y0
                 else (let t = (x - x0) / (x1 - x0) in y0 + t * (y1 - y0)))))"

text \<open>
  The arithmetic of the IRR solver: sum, difference, product, quotient and
  \<^verbatim>\<open>Math.pow\<close> with a natural exponent.
\<close>

record Arith =
  fadd :: "jsnum \<Rightarrow> jsnum \<Rightarrow> jsnum"
  fsub :: "jsnum \<Rightarrow> jsnum \<Rightarrow> jsnum"
  fmul :: "jsnum \<Rightarrow> jsnum \<Rightarrow> jsnum"
  fdiv :: "jsnum \<Rightarrow> jsnum \<Rightarrow> jsnum"
  fpow :: "jsnum \<Rightarrow> nat \<Rightarrow> jsnum"

definition exactArith :: Arith where
  "exactArith = \<lparr>fadd = jadd, fsub = jsub, fmul = jmul, fdiv = jdiv, fpow = jpow\<rparr>"

text \<open>The net present value closure \<^verbatim>\<open>npv\<close> of \<^verbatim>\<open>calculateIrr\<close>.\<close>

definition npv :: "Arith \<Rightarrow> jsnum list \<Rightarrow> jsnum \<Rightarrow> jsnum" where
  "npv A cashFlows rate =
     (if jle rate (Num (- 999999 / 1000000)) then PosInfinity
      else fold (\<lambda>idx acc.
             fadd A acc (fdiv A (cashFlows ! idx) (fpow A (fadd A (Num 1) rate) idx)))
             [0..<length cashFlows] (Num 0))"

text \<open>The inner loop of one Newton iteration: the value and the derivative.\<close>

definition newtonSums :: "Arith \<Rightarrow> jsnum list \<Rightarrow> jsnum \<Rightarrow> jsnum \<times> jsnum" where
  "newtonSums A cashFlows rate =
     fold (\<lambda>t (npvVal, dNpv).
       let denom = fpow A (fadd A (Num 1) rate) t
       in (fadd A npvVal (fdiv A (cashFlows ! t) denom),
           if t > 0
           then fsub A dNpv
                  (fdiv A (fmul A (Num (real t)) (cashFlows ! t))
                     (fmul A denom (fadd A (Num 1) rate)))
           else dNpv))
       [0..<length cashFlows] (Num 0, Num 0)"

text \<open>
  The Newton loop with its remaining iterations as second argument. \<open>Some rate\<close> is the
  \<^verbatim>\<open>return rate\<close> of a converged iteration; \<open>None\<close> is leaving the loop, by
  \<^verbatim>\<open>break\<close> or after the last iteration. The rate the loop ends with is not read again.
\<close>

fun newton :: "Arith \<Rightarrow> nat \<Rightarrow> jsnum list \<Rightarrow> jsnum \<Rightarrow> jsnum option" where
  "newton A 0 cashFlows rate = None"
| "newton A (Suc n) cashFlows rate =
     (let (npvVal, dNpv) = newtonSums A cashFlows rate
      in if jlt (jabs npvVal) (Num (1 / 10000000)) then Some rate
         else if \<not> isFinite dNpv \<or> dNpv = Num 0 then None
         else
           (let next = fsub A rate (fdiv A npvVal dNpv)
            in if \<not> isFinite next \<or> jle next (Num (- 999 / 1000)) then None
               else newton A n cashFlows next))"

text \<open>The bisection loop, again with its remaining iterations second.\<close>

fun bisect ::
  "Arith \<Rightarrow> nat \<Rightarrow> jsnum list \<Rightarrow> jsnum \<Rightarrow> jsnum \<Rightarrow> jsnum \<Rightarrow> jsnum \<Rightarrow> jsnum" where
  "bisect A 0 cashFlows low high npvLow npvHigh = fdiv A (fadd A low high) (Num 2)"
| "bisect A (Suc n) cashFlows low high npvLow npvHigh =
     (let mid = fdiv A (fadd A low high) (Num 2);
          npvMid = npv A cashFlows mid
      in if jlt (jabs npvMid) (Num (1 / 10000000)) then mid
         else if jlt (fmul A npvLow npvMid) (Num 0)
              then bisect A n cashFlows low mid npvLow npvMid
              else bisect A n cashFlows mid high npvMid npvHigh)"

text \<open>\<^verbatim>\<open>calculateIrr\<close> for an arithmetic \<open>A\<close>; \<open>None\<close> is \<^verbatim>\<open>null\<close>.\<close>

definition calculateIrrWith :: "Arith \<Rightarrow> jsnum list \<Rightarrow> jsnum option" where
  "calculateIrrWith A cashFlows =
     (if length cashFlows < 2 then None
      else
        (case newton A 60 cashFlows (Num (1 / 10)) of
           Some rate \<Rightarrow> Some rate
         | None \<Rightarrow>
             (let low = Num (- 999 / 1000);
                  high = Num 10;
                  npvLow = npv A cashFlows low;
                  npvHigh = npv A cashFlows high
              in if \<not> isFinite npvLow \<or> \<not> isFinite npvHigh \<or>
                    jgt (fmul A npvLow npvHigh) (Num 0)
                 then None
                 else Some (bisect A 120 cashFlows low high npvLow npvHigh))))"

text \<open>
  \<^verbatim>\<open>calculateIrr\<close> as the backtest calls it, on finite cash flows and with the exact
  operations. Every rate the solver returns with them is finite (lemma
  \<open>exact_irr_finite\<close> below), so the last case does not occur.
\<close>

definition calculateIrr :: "real list \<Rightarrow> real option" where
  "calculateIrr cashFlows =
     (case calculateIrrWith exactArith (map Num cashFlows) of
        None \<Rightarrow> None
      | Some (Num rate) \<Rightarrow> Some rate
      | Some _ \<Rightarrow> None)"




section \<open>The backtest (utils/backtest.ts)\<close>

text \<open>
  A \<^verbatim>\<open>Date\<close> is read through three methods only; the record holds what they return
  (\<^verbatim>\<open>getMonth\<close> counts from zero, \<^verbatim>\<open>getTime\<close> is in milliseconds).
\<close>

record Date =
  getFullYear :: int
  getMonth :: int
  getTime :: int

record HistoryPoint =
  time :: Date
  close :: real
  returnPct :: "jsnum option"

record BacktestRow =
  time :: Date
  assetReturn :: real
  strategyReturn :: real
  profit :: real
  withdrawal :: real
  investment :: real
  capital :: real
  lossEvent :: bool

record ChartPoint =
  time :: int
  assetReturn :: real
  strategyReturn :: real
  bubble :: real

record EquityPoint =
  time :: int
  capitalWith :: real
  capitalWithout :: real

record Chart =
  points :: "ChartPoint list"
  equity :: "EquityPoint list"

record BacktestMetrics =
  initialCapital :: real
  finalCapitalNoWithdrawal :: real
  finalCapitalWithWithdrawal :: real
  totalProfitPct :: real
  avgMonthlyProfit :: real
  monthlyEquivalentRate :: real
  profitWithWithdrawalPct :: real
  monthlyRateWithWithdrawal :: real
  monthlyIrr :: real
  wins :: nat
  losses :: nat

record BacktestResult =
  rows :: "BacktestRow list"
  chart :: Chart
  metrics :: BacktestMetrics

text \<open>\<^verbatim>\<open>monthlyInvestment\<close> is optional and defaults to zero.\<close>

record BacktestInput =
  history :: "HistoryPoint list"
  payoff :: PayoffCurve
  baseCapital :: real
  monthlyWithdrawal :: real
  monthlyInvestment :: "real option"
  applyLosses :: bool
  frequency :: BacktestFrequency

text \<open>The variables the \<^verbatim>\<open>forEach\<close> callback of \<^verbatim>\<open>runBacktest\<close> reads and writes.\<close>

record LoopState =
  rowsAcc :: "BacktestRow list"
  chartPoints :: "ChartPoint list"
  equityPoints :: "EquityPoint list"
  curWith :: real
  curWithout :: real
  firstPeriod :: bool
  lossBaseYear :: "int option"
  lossBaseMonth :: "int option"
  lossMonths :: "int set"
  winsAcc :: nat
  lossesAcc :: nat

definition periodsPerMonth :: "BacktestFrequency \<Rightarrow> real" where
  "periodsPerMonth freq = (if freq = WEEKLY then WEEKLY_PERIODS_PER_MONTH else 1)"

text \<open>
  The synthetic-loss block of one period: the haircut, the loss flag and the updated set of
  months that have fired. \<open>monthsElapsed\<close> is positive where \<^verbatim>\<open>%\<close> is taken, so the
  remainder is \<open>mod\<close>.
\<close>

definition lossInjection ::
  "bool \<Rightarrow> int option \<Rightarrow> int option \<Rightarrow> int set \<Rightarrow> Date \<Rightarrow> real \<times> bool \<times> int set" where
  "lossInjection lossesOn baseYear baseMonth months date =
     (case (baseYear, baseMonth) of
        (Some y, Some m) \<Rightarrow>
          if lossesOn then
            (let monthsElapsed = (getFullYear date - y) * 12 + (getMonth date + 1 - m) + 1
             in if monthsElapsed > 0 \<and> monthsElapsed \<notin> months then
                  (let lossPct = (if monthsElapsed mod 6 = 0 then 0 + 2 / 100 else 0);
                       lossPct = (if monthsElapsed mod 10 = 0 then lossPct + 9 / 100 else lossPct)
                   in if lossPct > 0 then (min lossPct (99 / 100), True, insert monthsElapsed months)
                      else (lossPct, False, months))
                else (0, False, months))
          else (0, False, months)
      | _ \<Rightarrow> (0, False, months))"

text \<open>The branch of a point whose return is \<^verbatim>\<open>null\<close> or not finite.\<close>

definition placeholderStep :: "Date \<Rightarrow> LoopState \<Rightarrow> LoopState" where
  "placeholderStep date s =
     (if firstPeriod s then
        s\<lparr>rowsAcc := rowsAcc s @
             [\<lparr>BacktestRow.time = date, assetReturn = 0, strategyReturn = 0, profit = 0,
               withdrawal = 0, investment = 0, capital = curWith s, lossEvent = False\<rparr>],
          chartPoints := chartPoints s @
             [\<lparr>ChartPoint.time = getTime date, assetReturn = 0, strategyReturn = 0, bubble = 4\<rparr>],
          equityPoints := equityPoints s @
             [\<lparr>EquityPoint.time = getTime date, capitalWith = curWith s,
               capitalWithout = curWithout s\<rparr>],
          firstPeriod := False\<rparr>
      else s)"

text \<open>The rest of the callback, for a point with the finite return \<open>ret\<close>.\<close>

definition periodStep ::
  "PayoffCurve \<Rightarrow> real \<Rightarrow> bool \<Rightarrow> real \<Rightarrow> real \<Rightarrow> Date \<Rightarrow> real \<Rightarrow> LoopState \<Rightarrow> LoopState" where
  "periodStep curve safeCapital lossesOn periodWithdrawal periodInvestment date ret s =
     (let strategyReturnBrl = linearInterpolate ret (variations curve) (returns curve);
          strategyReturnPct = (if safeCapital > 0 then strategyReturnBrl / safeCapital else 0);
          prevWithout = curWithout s;
          prevWith = curWith s;
          without1 = prevWithout * (1 + strategyReturnPct);
          with1 = prevWith * (1 + strategyReturnPct);
          (lossPct, lossEv, months) =
             lossInjection lossesOn (lossBaseYear s) (lossBaseMonth s) (lossMonths s) date;
          without2 = (if lossPct > 0 then without1 * (1 - lossPct) else without1);
          with2 = (if lossPct > 0 then with1 * (1 - lossPct) else with1);
          profitWithout = without2 - prevWithout;
          with3 = with2 - periodWithdrawal + periodInvestment;
          effectiveReturn = (if prevWithout \<noteq> 0 then profitWithout / prevWithout else 0);
          bubbleSize = min 16 (4 + \<bar>effectiveReturn * 100\<bar> * (6 / 10))
      in s\<lparr>rowsAcc := rowsAcc s @
             [\<lparr>BacktestRow.time = date, assetReturn = ret, strategyReturn = effectiveReturn,
               profit = profitWithout, withdrawal = periodWithdrawal,
               investment = periodInvestment, capital = with3, lossEvent = lossEv\<rparr>],
           chartPoints := chartPoints s @
             [\<lparr>ChartPoint.time = getTime date, assetReturn = ret,
               strategyReturn = effectiveReturn, bubble = bubbleSize\<rparr>],
           equityPoints := equityPoints s @
             [\<lparr>EquityPoint.time = getTime date, capitalWith = with3,
               capitalWithout = without2\<rparr>],
           curWith := with3,
           curWithout := without2,
           firstPeriod := False,
           lossMonths := months,
           winsAcc := (if effectiveReturn > 0 then winsAcc s + 1 else winsAcc s),
           lossesAcc := (if effectiveReturn < 0 then lossesAcc s + 1 else lossesAcc s)\<rparr>)"

text \<open>
  The whole callback: the loss clock takes its origin from the point at hand when it has
  none yet, before the return of the point is looked at.
\<close>

definition setLossBase :: "bool \<Rightarrow> Date \<Rightarrow> LoopState \<Rightarrow> LoopState" where
  "setLossBase lossesOn date s =
     (if lossesOn \<and> lossBaseYear s = None then
        s\<lparr>lossBaseYear := Some (getFullYear date), lossBaseMonth := Some (getMonth date + 1)\<rparr>
      else s)"

definition backtestStep ::
  "PayoffCurve \<Rightarrow> real \<Rightarrow> bool \<Rightarrow> real \<Rightarrow> real \<Rightarrow> HistoryPoint \<Rightarrow> LoopState \<Rightarrow> LoopState" where
  "backtestStep curve safeCapital lossesOn periodWithdrawal periodInvestment point s =
     (let date = HistoryPoint.time point;
          s1 = setLossBase lossesOn date s
      in case returnPct point of
           Some (Num ret) \<Rightarrow>
             periodStep curve safeCapital lossesOn periodWithdrawal periodInvestment date ret s1
         | _ \<Rightarrow> placeholderStep date s1)"

definition initialState :: "real \<Rightarrow> LoopState" where
  "initialState safeCapital =
     \<lparr>rowsAcc = [], chartPoints = [], equityPoints = [], curWith = safeCapital,
      curWithout = safeCapital, firstPeriod = True, lossBaseYear = None, lossBaseMonth = None,
      lossMonths = {}, winsAcc = 0, lossesAcc = 0\<rparr>"

definition backtestLoop ::
  "PayoffCurve \<Rightarrow> real \<Rightarrow> bool \<Rightarrow> real \<Rightarrow> real \<Rightarrow> HistoryPoint list \<Rightarrow> LoopState \<Rightarrow> LoopState" where
  "backtestLoop curve safeCapital lossesOn periodWithdrawal periodInvestment hist s =
     fold (backtestStep curve safeCapital lossesOn periodWithdrawal periodInvestment) hist s"

text \<open>
  \<^verbatim>\<open>%\<close> on numbers truncates the quotient towards zero. \<^verbatim>\<open>Math.pow\<close> is applied to a
  positive base wherever the metrics use it with a fractional exponent, where it is
  \<open>powr\<close>.
\<close>

definition jsRem :: "real \<Rightarrow> real \<Rightarrow> real" where
  "jsRem a b = a - b * of_int (if a / b \<ge> 0 then \<lfloor>a / b\<rfloor> else \<lceil>a / b\<rceil>)"

definition addToLast :: "real list \<Rightarrow> real \<Rightarrow> real list" where
  "addToLast cashFlows x =
     cashFlows[length cashFlows - 1 := cashFlows ! (length cashFlows - 1) + x]"

definition monthlyRate :: "BacktestFrequency \<Rightarrow> nat \<Rightarrow> real \<Rightarrow> real \<Rightarrow> real" where
  "monthlyRate freq numPeriods safeCapital finalCapital =
     (if numPeriods > 0 \<and> safeCapital > 0 \<and> finalCapital > 0 then
        (let ratePerPeriod = (finalCapital / safeCapital) powr (1 / real numPeriods) - 1
         in if freq = MONTHLY then ratePerPeriod * 100
            else ((1 + ratePerPeriod) powr periodsPerMonth freq - 1) * 100)
      else 0)"

definition irrCashFlows :: "BacktestFrequency \<Rightarrow> nat \<Rightarrow> real \<Rightarrow> real \<Rightarrow> real \<Rightarrow> real list" where
  "irrCashFlows freq numPeriods safeCapital netMonthlyFlow finalCapital =
     (if freq = MONTHLY then
        addToLast ([- safeCapital] @ replicate numPeriods netMonthlyFlow) finalCapital
      else
        (let perMonth = periodsPerMonth freq
         in addToLast
              ([- safeCapital] @
               map (\<lambda>i. if jsRem (real i + 1) perMonth < 1 then netMonthlyFlow else 0)
                 [0..<numPeriods])
              finalCapital))"

definition monthlyIrrOf :: "BacktestFrequency \<Rightarrow> real option \<Rightarrow> real" where
  "monthlyIrrOf freq irr =
     (if freq = MONTHLY then (case irr of None \<Rightarrow> 0 | Some r \<Rightarrow> r * 100)
      else (case irr of None \<Rightarrow> 0
            | Some r \<Rightarrow> ((1 + r) powr periodsPerMonth freq - 1) * 100))"

definition emptyMetrics :: "real \<Rightarrow> BacktestMetrics" where
  "emptyMetrics safeCapital =
     \<lparr>initialCapital = safeCapital, finalCapitalNoWithdrawal = safeCapital,
      finalCapitalWithWithdrawal = safeCapital, totalProfitPct = 0, avgMonthlyProfit = 0,
      monthlyEquivalentRate = 0, profitWithWithdrawalPct = 0, monthlyRateWithWithdrawal = 0,
      monthlyIrr = 0, wins = 0, losses = 0\<rparr>"

definition summarise ::
  "BacktestFrequency \<Rightarrow> real \<Rightarrow> real \<Rightarrow> real \<Rightarrow> LoopState \<Rightarrow> BacktestMetrics" where
  "summarise freq safeCapital withdrawalM investmentM s =
     (let eq = equityPoints s;
          rs = rowsAcc s;
          finalNo = (if length eq \<noteq> 0 then capitalWithout (eq ! (length eq - 1)) else safeCapital);
          finalWith = (if length eq \<noteq> 0 then capitalWith (eq ! (length eq - 1)) else safeCapital);
          totalProfit = finalNo - safeCapital;
          totalPct = (if safeCapital > 0 then totalProfit / safeCapital * 100 else 0);
          numPeriods = length rs - 1;
          numMonths =
            (if length rs > 1 then
               (let start = getTime (BacktestRow.time (rs ! 0));
                    end' = getTime (BacktestRow.time (rs ! (length rs - 1)));
                    daysDiff = real_of_int (end' - start) / (1000 * 60 * 60 * 24)
                in daysDiff / (3044 / 100))
             else 0);
          avgMonthly = (if numMonths > 0 then totalProfit / numMonths else 0);
          equivalentRate = monthlyRate freq numPeriods safeCapital finalNo;
          profitWith = finalWith - safeCapital;
          profitWithPct = (if safeCapital > 0 then profitWith / safeCapital * 100 else 0);
          rateWith = monthlyRate freq numPeriods safeCapital finalWith;
          irrPct =
            (if numPeriods > 0 \<and> safeCapital > 0 then
               (let netMonthlyFlow = withdrawalM - investmentM
                in monthlyIrrOf freq
                     (calculateIrr
                        (irrCashFlows freq numPeriods safeCapital netMonthlyFlow finalWith)))
             else 0)
      in \<lparr>initialCapital = safeCapital, finalCapitalNoWithdrawal = finalNo,
          finalCapitalWithWithdrawal = finalWith, totalProfitPct = totalPct,
          avgMonthlyProfit = avgMonthly, monthlyEquivalentRate = equivalentRate,
          profitWithWithdrawalPct = profitWithPct, monthlyRateWithWithdrawal = rateWith,
          monthlyIrr = irrPct, wins = winsAcc s, losses = lossesAcc s\<rparr>)"

text \<open>The state of the loop of \<^verbatim>\<open>runBacktest\<close> after the whole history.\<close>

definition runLoop :: "BacktestInput \<Rightarrow> LoopState" where
  "runLoop inp =
     (let safeCapital = (if baseCapital inp > 0 then baseCapital inp else 0);
          investmentM = (case monthlyInvestment inp of None \<Rightarrow> 0 | Some v \<Rightarrow> v);
          periodWithdrawal =
            (if frequency inp = WEEKLY then monthlyWithdrawal inp / WEEKLY_PERIODS_PER_MONTH
             else monthlyWithdrawal inp);
          periodInvestment =
            (if frequency inp = WEEKLY then investmentM / WEEKLY_PERIODS_PER_MONTH
             else investmentM)
      in backtestLoop (payoff inp) safeCapital (applyLosses inp) periodWithdrawal
           periodInvestment (history inp) (initialState safeCapital))"

definition runBacktest :: "BacktestInput \<Rightarrow> BacktestResult" where
  "runBacktest inp =
     (let safeCapital = (if baseCapital inp > 0 then baseCapital inp else 0);
          investmentM = (case monthlyInvestment inp of None \<Rightarrow> 0 | Some v \<Rightarrow> v)
      in if length (history inp) = 0 \<or> length (variations (payoff inp)) = 0 \<or> safeCapital \<le> 0
         then \<lparr>rows = [], chart = \<lparr>points = [], equity = []\<rparr>,
               metrics = emptyMetrics safeCapital\<rparr>
         else
           (let s = runLoop inp
            in \<lparr>rows = rowsAcc s,
                chart = \<lparr>points = chartPoints s, equity = equityPoints s\<rparr>,
                metrics = summarise (frequency inp) safeCapital (monthlyWithdrawal inp)
                            investmentM s\<rparr>))"

section \<open>Auxiliary notions and example inputs\<close>

text \<open>
  The signed premium of a leg whose contract size is \<open>c\<close>, in the words of the
  specification: premium times quantity times contract size, positive for a sold leg and
  negative for a bought one.
\<close>

definition premiumReference :: "StrategyLeg \<Rightarrow> real \<Rightarrow> real" where
  "premiumReference leg c =
     (if side leg = SELL then premium leg * quantity leg * c
      else - (premium leg * quantity leg * c))"

text \<open>One share bought at 10, with a contract size of \<open>-1\<close>, and the same with none.\<close>

definition negLeg :: StrategyLeg where
  "negLeg = \<lparr>leg_id = ''a'', instrument = UNDERLYING, side = BUY, optionType = None,
      strike = None, premium = 10, quantity = 1, symbol = ''X'', contractSize = Some (- 1)\<rparr>"

definition absentLeg :: StrategyLeg where
  "absentLeg = negLeg\<lparr>contractSize := None\<rparr>"

text \<open>A bought call, strike 30, and a backtest input with an empty history.\<close>

definition leg0 :: StrategyLeg where
  "leg0 = \<lparr>leg_id = ''c'', instrument = OPTION, side = BUY, optionType = Some CALL,
      strike = Some 30, premium = 1, quantity = 1, symbol = ''X'', contractSize = Some 100\<rparr>"

definition flatCurve :: PayoffCurve where
  "flatCurve = \<lparr>basePrice = Num 30, variations = [0], returns = [0]\<rparr>"

definition noHistoryInput :: BacktestInput where
  "noHistoryInput =
     \<lparr>history = [], payoff = flatCurve, baseCapital = 1000, monthlyWithdrawal = 0,
      monthlyInvestment = None, applyLosses = False, frequency = MONTHLY\<rparr>"

text \<open>A history point has a return the loop can use when it is a finite number.\<close>

definition finiteReturn :: "HistoryPoint \<Rightarrow> bool" where
  "finiteReturn p = (case returnPct p of Some v \<Rightarrow> isFinite v | None \<Rightarrow> False)"

text \<open>The anchor row, chart point and equity point of a placeholder.\<close>

definition anchorRow :: "Date \<Rightarrow> real \<Rightarrow> BacktestRow" where
  "anchorRow date c =
     \<lparr>BacktestRow.time = date, assetReturn = 0, strategyReturn = 0, profit = 0,
      withdrawal = 0, investment = 0, capital = c, lossEvent = False\<rparr>"

definition anchorPoint :: "Date \<Rightarrow> ChartPoint" where
  "anchorPoint date =
     \<lparr>ChartPoint.time = getTime date, assetReturn = 0, strategyReturn = 0, bubble = 4\<rparr>"

definition anchorEquity :: "Date \<Rightarrow> real \<Rightarrow> EquityPoint" where
  "anchorEquity date c =
     \<lparr>EquityPoint.time = getTime date, capitalWith = c, capitalWithout = c\<rparr>"

text \<open>The two equity tracks agree in a loop state, in all it has recorded so far.\<close>

definition tracksAgree :: "LoopState \<Rightarrow> bool" where
  "tracksAgree s \<longleftrightarrow>
     curWith s = curWithout s \<and>
     (\<forall>e \<in> set (equityPoints s). capitalWith e = capitalWithout e) \<and>
     map capital (rowsAcc s) = map capitalWithout (equityPoints s)"

text \<open>
  A history of three months: January 2020 without a return, then June and October 2020
  with a return of zero; a backtest of it on the flat curve, without cash flows.
\<close>

definition jan2020 :: Date where
  "jan2020 = \<lparr>getFullYear = 2020, getMonth = 0, getTime = 1577836800000\<rparr>"

definition jun2020 :: Date where
  "jun2020 = \<lparr>getFullYear = 2020, getMonth = 5, getTime = 1590969600000\<rparr>"

definition oct2020 :: Date where
  "oct2020 = \<lparr>getFullYear = 2020, getMonth = 9, getTime = 1601510400000\<rparr>"

definition janPoint :: HistoryPoint where
  "janPoint = \<lparr>HistoryPoint.time = jan2020, close = 30, returnPct = None\<rparr>"

definition junPoint :: HistoryPoint where
  "junPoint = \<lparr>HistoryPoint.time = jun2020, close = 30, returnPct = Some (Num 0)\<rparr>"

definition octPoint :: HistoryPoint where
  "octPoint = \<lparr>HistoryPoint.time = oct2020, close = 30, returnPct = Some (Num 0)\<rparr>"

definition sampleHistory :: "HistoryPoint list" where
  "sampleHistory = [janPoint, junPoint, octPoint]"

definition sampleInput :: BacktestInput where
  "sampleInput =
     \<lparr>history = sampleHistory, payoff = flatCurve, baseCapital = 1000, monthlyWithdrawal = 0,
      monthlyInvestment = None, applyLosses = False, frequency = MONTHLY\<rparr>"

definition sampleInputLosses :: BacktestInput where
  "sampleInputLosses = sampleInput\<lparr>applyLosses := True\<rparr>"

text \<open>
  A loop state is settled once a point has been processed: the first-period flag is down
  and, with losses enabled, the loss clock has its origin.
\<close>

definition settled :: "bool \<Rightarrow> LoopState \<Rightarrow> bool" where
  "settled lo s \<longleftrightarrow> \<not> firstPeriod s \<and> (lo \<longrightarrow> lossBaseYear s \<noteq> None)"

text \<open>A history point of June 2020 without a return.\<close>

definition nullPoint :: HistoryPoint where
  "nullPoint = \<lparr>HistoryPoint.time = jun2020, close = 30, returnPct = None\<rparr>"

text \<open>
  The loss clock. \<open>clockMonth y m date\<close> counts the months from the origin \<open>(y, m)\<close> to the
  date, the month of the origin being month 1. \<open>haircutOf k\<close> is the loss the source
  schedules for the month count \<open>k\<close>: 2 percent on a multiple of 6 and 9 percent on a
  multiple of 10, each on its own account.
\<close>

definition clockMonth :: "int \<Rightarrow> int \<Rightarrow> Date \<Rightarrow> int" where
  "clockMonth y m date = (getFullYear date - y) * 12 + (getMonth date + 1 - m) + 1"

definition haircutOf :: "int \<Rightarrow> real" where
  "haircutOf k = (if k mod 6 = 0 then 2 / 100 else 0) + (if k mod 10 = 0 then 9 / 100 else 0)"

text \<open>
  The schedule and the origin in the words of the specification: 2 percent on a multiple of
  6, plus 9 percent when the count is also a multiple of 10; the origin is the first period
  with a defined return.
\<close>

definition specHaircut :: "int \<Rightarrow> real" where
  "specHaircut k =
     (if k mod 6 = 0 then 2 / 100 + (if k mod 10 = 0 then 9 / 100 else 0) else 0)"

definition specClockMonth :: "HistoryPoint list \<Rightarrow> Date \<Rightarrow> int" where
  "specClockMonth hist date =
     (case find finiteReturn hist of
        Some p0 \<Rightarrow>
          clockMonth (getFullYear (HistoryPoint.time p0)) (getMonth (HistoryPoint.time p0) + 1) date
      | None \<Rightarrow> 0)"

text \<open>
  The state of the loss clock with origin \<open>(y, m)\<close>: the months that have fired are the
  clock-months of the rows marked as loss events, and no two such rows share a month.
\<close>

definition clockInvariant :: "int \<Rightarrow> int \<Rightarrow> LoopState \<Rightarrow> bool" where
  "clockInvariant y m s \<longleftrightarrow>
     lossBaseYear s = Some y \<and> lossBaseMonth s = Some m \<and> \<not> firstPeriod s \<and>
     lossMonths s = set (map (\<lambda>r. clockMonth y m (BacktestRow.time r)) (filter lossEvent (rowsAcc s))) \<and>
     distinct (map (\<lambda>r. clockMonth y m (BacktestRow.time r)) (filter lossEvent (rowsAcc s)))"

text \<open>The amounts per period and the return fraction of a period, as the loop uses them.\<close>

definition periodAmount :: "BacktestFrequency \<Rightarrow> real \<Rightarrow> real" where
  "periodAmount freq monthly =
     (if freq = WEEKLY then monthly / WEEKLY_PERIODS_PER_MONTH else monthly)"

definition investmentOf :: "BacktestInput \<Rightarrow> real" where
  "investmentOf inp = (case monthlyInvestment inp of None \<Rightarrow> 0 | Some v \<Rightarrow> v)"

definition strategyReturnPct :: "PayoffCurve \<Rightarrow> real \<Rightarrow> real \<Rightarrow> real" where
  "strategyReturnPct curve safeCapital ret =
     (if safeCapital > 0
      then linearInterpolate ret (variations curve) (returns curve) / safeCapital else 0)"

text \<open>The states of the loop on the sample history, with losses, after one and two points.\<close>

definition sampleState1 :: LoopState where
  "sampleState1 =
     \<lparr>rowsAcc = [anchorRow jan2020 1000], chartPoints = [anchorPoint jan2020],
      equityPoints = [anchorEquity jan2020 1000], curWith = 1000, curWithout = 1000,
      firstPeriod = False, lossBaseYear = Some 2020, lossBaseMonth = Some 1,
      lossMonths = {}, winsAcc = 0, lossesAcc = 0\<rparr>"

definition sampleState2 :: LoopState where
  "sampleState2 =
     \<lparr>rowsAcc =
        [anchorRow jan2020 1000,
         \<lparr>BacktestRow.time = jun2020, assetReturn = 0, strategyReturn = - (1 / 50),
          profit = - 20, withdrawal = 0, investment = 0, capital = 980, lossEvent = True\<rparr>],
      chartPoints =
        [anchorPoint jan2020,
         \<lparr>ChartPoint.time = getTime jun2020, assetReturn = 0, strategyReturn = - (1 / 50),
          bubble = 26 / 5\<rparr>],
      equityPoints =
        [anchorEquity jan2020 1000,
         \<lparr>EquityPoint.time = getTime jun2020, capitalWith = 980, capitalWithout = 980\<rparr>],
      curWith = 980, curWithout = 980, firstPeriod = False, lossBaseYear = Some 2020,
      lossBaseMonth = Some 1, lossMonths = {6}, winsAcc = 0, lossesAcc = 1\<rparr>"

text \<open>
  The loop state has recorded its two tracks: the last equity point carries the current
  capitals.
\<close>

definition recorded :: "LoopState \<Rightarrow> bool" where
  "recorded s \<longleftrightarrow>
     equityPoints s \<noteq> [] \<and>
     curWith s = capitalWith (last (equityPoints s)) \<and>
     curWithout s = capitalWithout (last (equityPoints s))"




section \<open>Properties of the leg payoff\<close>

text \<open>
  C1. For every leg and every price \<open>p\<close>, \<open>calculateLegPayoff\<close> returns the reference
  value: the signed move of an underlying leg, or the intrinsic value less the premium of an
  option leg, negated for a sold option, times quantity times contract size, where the
  contract size of a leg that has none, or zero, is the default of 100. For a leg with a
  contract size \<open>c\<close> other than zero the factor is \<open>c\<close> itself. An option leg without
  option type or without strike pays exactly zero.
\<close>

theorem calculateLegPayoff_reference:
  "calculateLegPayoff leg p =
     payoffReference leg
       (case contractSize leg of None \<Rightarrow> 100 | Some c \<Rightarrow> if c = 0 then 100 else c) p \<and>
   (contractSize leg = Some c \<and> c \<noteq> 0 \<longrightarrow> calculateLegPayoff leg p = payoffReference leg c p) \<and>
   (instrument leg = OPTION \<and> (optionType leg = None \<or> strike leg = None) \<longrightarrow>
      calculateLegPayoff leg p = 0)"
  by (cases "instrument leg"; cases "optionType leg"; cases "strike leg"; cases "side leg";
      cases "contractSize leg")
     (auto simp: calculateLegPayoff_def payoffReference_def orDefault_def
           DEFAULT_CONTRACT_SIZE_def Let_def algebra_simps split: OptionType.splits)

theorem calculateLegPayoff_reference_witness:
  "contractSize leg0 = Some 100 \<and> (100 :: real) \<noteq> 0 \<and>
   calculateLegPayoff leg0 33 = 200 \<and>
   calculateLegPayoff absentLeg 11 = 100 \<and>
   instrument (leg0\<lparr>optionType := None\<rparr>) = OPTION \<and>
   calculateLegPayoff (leg0\<lparr>optionType := None\<rparr>) 33 = 0"
proof -
  have a: "contractSize leg0 = Some 100 \<and> (100 :: real) \<noteq> 0" by (simp add: leg0_def)
  have b: "instrument (leg0\<lparr>optionType := None\<rparr>) = OPTION \<and>
      (optionType (leg0\<lparr>optionType := None\<rparr>) = None \<or>
       strike (leg0\<lparr>optionType := None\<rparr>) = None)"
    by (simp add: leg0_def)
  have v: "payoffReference leg0 100 33 = 200"
      "payoffReference absentLeg
         (case contractSize absentLeg of None \<Rightarrow> 100 | Some c \<Rightarrow> if c = 0 then 100 else c) 11 = 100"
    by (simp_all add: payoffReference_def leg0_def absentLeg_def negLeg_def)
  from calculateLegPayoff_reference [where leg = leg0 and c = 100 and p = 33]
       calculateLegPayoff_reference [where leg = absentLeg and c = 100 and p = 11]
       calculateLegPayoff_reference [where leg = "leg0\<lparr>optionType := None\<rparr>" and c = 100 and p = 33]
       a b v
  show ?thesis by simp
qed

section \<open>The default contract size\<close>

lemma payoff_multiplier:
  "calculateLegPayoff leg p = payoffReference leg (orDefault (contractSize leg)) p"
  by (cases "instrument leg"; cases "optionType leg"; cases "strike leg"; cases "side leg")
     (auto simp: calculateLegPayoff_def payoffReference_def Let_def algebra_simps
           split: OptionType.splits)

lemma legNetPremium_reference:
  "legNetPremium leg acc = acc + premiumReference leg (orDefault (contractSize leg))"
  by (simp add: legNetPremium_def premiumReference_def Let_def)

lemma fold_legNetPremium:
  "fold legNetPremium legs acc =
     acc + (\<Sum>leg\<leftarrow>legs. premiumReference leg (orDefault (contractSize leg)))"
  by (induction legs arbitrary: acc) (simp_all add: legNetPremium_reference)

lemma cost_is_netPremium: "calculateStrategyCost legs = fold legNetPremium legs 0"
proof -
  have "(\<lambda>leg acc. let multiplier = orDefault (contractSize leg);
           legPremium = premium leg * quantity leg * multiplier
       in acc + (if side leg = SELL then legPremium else - legPremium)) = legNetPremium"
    by (intro ext) (simp add: legNetPremium_def)
  then show ?thesis by (simp add: calculateStrategyCost_def)
qed

lemma orDefault_cases:
  "orDefault cs = (case cs of None \<Rightarrow> 100 | Some c \<Rightarrow> if c = 0 then 100 else c)"
  by (cases cs) (simp_all add: orDefault_def DEFAULT_CONTRACT_SIZE_def)

text \<open>
  C8, as the code has it. For a leg whose contract size is absent or zero the engine
  computes with 100: its payoff is the reference payoff for the contract size 100 and its
  cost the signed premium for 100. A negative contract size is not replaced: payoff and cost
  are those for the negative size itself. In general the strategy cost and, on a non-empty
  curve, the net premium of the statistics are the sum of the signed premiums of the legs,
  each for its own contract size, or for 100 when it has none or zero.
\<close>

theorem contractSize_default:
  "(contractSize leg = None \<or> contractSize leg = Some 0 \<longrightarrow>
      calculateLegPayoff leg p = payoffReference leg 100 p \<and>
      calculateStrategyCost [leg] = premiumReference leg 100) \<and>
   (contractSize leg = Some c \<and> c < 0 \<longrightarrow>
      calculateLegPayoff leg p = payoffReference leg c p \<and>
      calculateStrategyCost [leg] = premiumReference leg c) \<and>
   calculateStrategyCost legs =
     (\<Sum>leg\<leftarrow>legs. premiumReference leg
        (case contractSize leg of None \<Rightarrow> 100 | Some c \<Rightarrow> if c = 0 then 100 else c)) \<and>
   netPremium (calculateStrategyStats legs payoffData currentPrice) =
     (if payoffData = [] then 0
      else (\<Sum>leg\<leftarrow>legs. premiumReference leg
        (case contractSize leg of None \<Rightarrow> 100 | Some c \<Rightarrow> if c = 0 then 100 else c)))"
proof (intro conjI impI)
  assume a: "contractSize leg = None \<or> contractSize leg = Some 0"
  then have o: "orDefault (contractSize leg) = 100" by (auto simp: orDefault_cases)
  show "calculateLegPayoff leg p = payoffReference leg 100 p"
    by (simp add: payoff_multiplier o)
  show "calculateStrategyCost [leg] = premiumReference leg 100"
    by (simp add: cost_is_netPremium legNetPremium_reference o)
next
  assume a: "contractSize leg = Some c \<and> c < 0"
  then have o: "orDefault (contractSize leg) = c" by (simp add: orDefault_cases)
  show "calculateLegPayoff leg p = payoffReference leg c p"
    by (simp add: payoff_multiplier o)
  show "calculateStrategyCost [leg] = premiumReference leg c"
    by (simp add: cost_is_netPremium legNetPremium_reference o)
next
  show "calculateStrategyCost legs =
     (\<Sum>leg\<leftarrow>legs. premiumReference leg
        (case contractSize leg of None \<Rightarrow> 100 | Some c \<Rightarrow> if c = 0 then 100 else c))"
    by (simp add: cost_is_netPremium fold_legNetPremium orDefault_cases)
  show "netPremium (calculateStrategyStats legs payoffData currentPrice) =
     (if payoffData = [] then 0
      else (\<Sum>leg\<leftarrow>legs. premiumReference leg
        (case contractSize leg of None \<Rightarrow> 100 | Some c \<Rightarrow> if c = 0 then 100 else c)))"
    by (simp add: calculateStrategyStats_def Let_def fold_legNetPremium orDefault_cases)
qed

theorem contractSize_default_witness:
  "contractSize negLeg = Some (- 1) \<and> (- 1 :: real) < 0 \<and>
   calculateLegPayoff negLeg 11 = - 1 \<and> calculateStrategyCost [negLeg] = 10 \<and>
   contractSize absentLeg = None \<and>
   calculateLegPayoff absentLeg 11 = 100 \<and> calculateStrategyCost [absentLeg] = - 1000"
proof -
  have h: "contractSize negLeg = Some (- 1) \<and> (- 1 :: real) < 0"
    by (simp add: negLeg_def)
  have g: "contractSize absentLeg = None \<or> contractSize absentLeg = Some 0"
    by (simp add: absentLeg_def)
  have v: "payoffReference negLeg (- 1) 11 = - 1" "premiumReference negLeg (- 1) = 10"
    "payoffReference absentLeg 100 11 = 100" "premiumReference absentLeg 100 = - 1000"
    by (simp_all add: payoffReference_def premiumReference_def negLeg_def absentLeg_def)
  from contractSize_default [of negLeg 11 "- 1" "[]" "[]" 0]
       contractSize_default [of absentLeg 11 0 "[]" "[]" 0] h g v
  show ?thesis by (simp add: absentLeg_def)
qed

text \<open>
  The claim as stated fails for a negative contract size: the leg pays \<open>-1\<close> per point
  and costs \<open>10\<close>, not the \<open>100\<close> per point and \<open>-1000\<close> of the default.
\<close>

theorem contractSize_negative_counterexample:
  "calculateLegPayoff negLeg 11 = - 1 \<and>
   calculateLegPayoff (negLeg\<lparr>contractSize := Some 100\<rparr>) 11 = 100 \<and>
   calculateStrategyCost [negLeg] = 10 \<and>
   calculateStrategyCost [negLeg\<lparr>contractSize := Some 100\<rparr>] = - 1000"
  by (simp add: negLeg_def calculateLegPayoff_def orDefault_def calculateStrategyCost_def Let_def)

section \<open>Rounding\<close>

lemma toFixed_exact:
  assumes "x * 10 ^ d = of_int k" "\<bar>x\<bar> < 10 ^ 21"
  shows "toFixed d x = x"
proof -
  have "\<bar>x * 10 ^ d\<bar> = \<bar>real_of_int k\<bar>" using assms(1) by simp
  then have e: "\<bar>x\<bar> * 10 ^ d = of_int \<bar>k\<bar>" by (simp add: abs_mult)
  then have "\<lfloor>\<bar>x\<bar> * 10 ^ d + 1 / 2\<rfloor> = \<bar>k\<bar>" by linarith
  moreover have "real_of_int \<bar>k\<bar> / 10 ^ d = \<bar>x\<bar>"
    using e by (simp add: field_simps)
  ultimately show ?thesis using assms(2) by (simp add: toFixed_def mult_sgn_abs)
qed

section \<open>The two curve builders\<close>

lemma display_move:
  assumes "i < 321"
  shows "toFixed 4 (- 40 + 80 / 320 * real i) = - 40 + real i / 4"
proof -
  have "toFixed 4 (- 40 + real i / 4) = - 40 + real i / 4"
  proof (rule toFixed_exact[where k = "- 400000 + 2500 * int i"])
    show "(- 40 + real i / 4) * 10 ^ 4 = real_of_int (- 400000 + 2500 * int i)" by simp
    show "\<bar>- 40 + real i / 4\<bar> < 10 ^ 21" using assms by (simp add: abs_if)
  qed
  then show ?thesis by simp
qed

text \<open>
  C5, as the code has it. The interpolation table of the backtest is
  \<open>payoffCurve legs currentPrice\<close>, built with the defaults of \<open>buildPayoffCurve\<close>: 250
  samples (249 uniform intervals) of the fractional move from \<open>-0.3\<close> to \<open>0.3\<close>. The
  window of 40 percent either side in 320 intervals, 321 points, is that of the display
  curve \<open>generatePayoffData\<close>, whose moves are \<open>-40 + i / 4\<close>.
\<close>

theorem backtest_curve_window:
  assumes "legs \<noteq> []" and "0 < bp"
  shows "length (variations (payoffCurve legs (Num bp))) = 250 \<and>
         length (returns (payoffCurve legs (Num bp))) = 250 \<and>
         (\<forall>i<250. variations (payoffCurve legs (Num bp)) ! i =
                     toFixed 6 (- 3 / 10 + (6 / 10) / 249 * real i) \<and>
                   returns (payoffCurve legs (Num bp)) ! i =
                     toFixed 4 (totalProfitAt legs (bp * (1 + (- 3 / 10 + (6 / 10) / 249 * real i))))) \<and>
         variations (payoffCurve legs (Num bp)) ! 0 = - 3 / 10 \<and>
         variations (payoffCurve legs (Num bp)) ! 249 = 3 / 10 \<and>
         length (generatePayoffData legs (Num bp)) = 321 \<and>
         (\<forall>i<321. movePct (generatePayoffData legs (Num bp) ! i) = - 40 + real i / 4)"
proof -
  have c: "payoffCurve legs (Num bp) =
     \<lparr>basePrice = Num bp,
      variations = map (\<lambda>i. toFixed 6 (- 3 / 10 + (6 / 10) / 249 * real i)) [0..<250],
      returns = map (\<lambda>i. toFixed 4 (totalProfitAt legs (bp * (1 + (- 3 / 10 + (6 / 10) / 249 * real i))))) [0..<250]\<rparr>"
    using assms by (simp add: payoffCurve_def buildPayoffCurve_def Let_def)
  have g: "generatePayoffData legs (Num bp) =
     map (\<lambda>i. \<lparr>movePct = toFixed 4 (- 40 + 80 / 320 * real i),
               PayoffData.profit = toFixed 4 (totalProfitAt legs (bp * (1 + (- 40 + 80 / 320 * real i) / 100)))\<rparr>) [0..<321]"
    using assms by (simp add: generatePayoffData_def Let_def PAYOFF_RANGE_PCT_def PAYOFF_POINTS_def)
  have v0: "toFixed 6 (- 3 / 10 + (6 / 10) / 249 * real (0::nat)) = - 3 / 10"
    by (simp add: toFixed_def)
  have v1: "toFixed 6 (- 3 / 10 + (6 / 10) / 249 * real (249::nat)) = 3 / 10"
    by (simp add: toFixed_def)
  have a: "length (variations (payoffCurve legs (Num bp))) = 250"
    and b: "length (returns (payoffCurve legs (Num bp))) = 250"
    by (simp_all add: c)
  have d: "\<forall>i<250. variations (payoffCurve legs (Num bp)) ! i =
                     toFixed 6 (- 3 / 10 + (6 / 10) / 249 * real i) \<and>
                   returns (payoffCurve legs (Num bp)) ! i =
                     toFixed 4 (totalProfitAt legs (bp * (1 + (- 3 / 10 + (6 / 10) / 249 * real i))))"
    by (simp add: c del: upt_Suc)
  have e: "variations (payoffCurve legs (Num bp)) ! 0 = - 3 / 10"
    using d v0 by (metis zero_less_numeral)
  have f: "variations (payoffCurve legs (Num bp)) ! 249 = 3 / 10"
    using d v1 by simp
  have h: "length (generatePayoffData legs (Num bp)) = 321"
    by (simp add: g)
  have k: "\<forall>i<321. movePct (generatePayoffData legs (Num bp) ! i) = - 40 + real i / 4"
    using display_move by (simp add: g del: upt_Suc)
  from a b d e f h k show ?thesis by blast
qed

theorem backtest_curve_window_witness:
  "[leg0] \<noteq> [] \<and> (0 :: real) < 30 \<and>
   length (variations (payoffCurve [leg0] (Num 30))) = 250 \<and>
   length (generatePayoffData [leg0] (Num 30)) = 321 \<and>
   movePct (generatePayoffData [leg0] (Num 30) ! 320) = 40"
  using backtest_curve_window [of "[leg0]" 30] by simp

text \<open>
  The table of the backtest has 250 points between \<open>-0.3\<close> and \<open>0.3\<close>, not 321 points
  over 40 percent either side.
\<close>

theorem backtest_curve_counterexample:
  "length (variations (payoffCurve [leg0] (Num 30))) = 250 \<and>
   variations (payoffCurve [leg0] (Num 30)) ! 0 = - 3 / 10 \<and>
   variations (payoffCurve [leg0] (Num 30)) ! 249 = 3 / 10"
  by (simp add: payoffCurve_def buildPayoffCurve_def Let_def toFixed_def)

lemma referencePoints_set:
  "set (referencePoints legs cp) =
     {v. 0 < v \<and>
        (cp = Num v \<or>
         (\<exists>leg \<in> set legs. instrument leg = OPTION \<and> strike leg = Some v) \<or>
         (\<exists>leg \<in> set legs. instrument leg = UNDERLYING \<and> premium leg = v))}"
proof -
  have a: "set (List.map_filter strike (filter (\<lambda>leg. instrument leg = OPTION) legs)) =
        {v. \<exists>leg \<in> set legs. instrument leg = OPTION \<and> strike leg = Some v}"
    by (force simp: List.map_filter_def)
  have b: "set (map premium (filter (\<lambda>leg. instrument leg = UNDERLYING) legs)) =
        {v. \<exists>leg \<in> set legs. instrument leg = UNDERLYING \<and> premium leg = v}"
    by auto
  have c: "set (case cp of Num v \<Rightarrow> [v] | _ \<Rightarrow> []) = {v. cp = Num v}"
    by (cases cp) auto
  show ?thesis
    unfolding referencePoints_def Let_def set_filter set_append a b c by auto
qed

lemma absolute_length:
  "length (generatePayoffDataAbsolute legs cp) =
     (if legs = [] \<or> referencePoints legs cp = [] then 0 else 321)"
  by (simp add: generatePayoffDataAbsolute_def Let_def del: upt_Suc)

text \<open>
  C6, as the code has it. Both percentage-move builders return an empty curve for an empty
  leg set, a non-finite price or a price that is not positive. The absolute-price sweep is
  empty exactly when there is no leg, or when neither the current price nor any option
  strike nor any underlying entry price is a positive finite number; otherwise it has its
  321 points. So an invalid current price alone does not empty it: one option leg with a
  positive strike gives 321 points whatever the current price.
\<close>

theorem empty_curve:
  "(legs = [] \<or> \<not> isFinite cp \<or> (\<exists>v. cp = Num v \<and> v \<le> 0) \<longrightarrow>
      generatePayoffData legs cp = [] \<and>
      variations (buildPayoffCurve legs cp rangePct n) = [] \<and>
      returns (buildPayoffCurve legs cp rangePct n) = []) \<and>
   (generatePayoffDataAbsolute legs cp = [] \<longleftrightarrow>
      legs = [] \<or>
      (\<not> (\<exists>v. cp = Num v \<and> 0 < v) \<and>
       (\<forall>leg \<in> set legs. \<forall>k. instrument leg = OPTION \<and> strike leg = Some k \<longrightarrow> k \<le> 0) \<and>
       (\<forall>leg \<in> set legs. instrument leg = UNDERLYING \<longrightarrow> premium leg \<le> 0))) \<and>
   (generatePayoffDataAbsolute legs cp \<noteq> [] \<longrightarrow>
      length (generatePayoffDataAbsolute legs cp) = 321) \<and>
   (leg \<in> set legs \<and> instrument leg = OPTION \<and> strike leg = Some k \<and> 0 < k \<longrightarrow>
      length (generatePayoffDataAbsolute legs cp) = 321)"
proof (intro conjI impI)
  assume h: "legs = [] \<or> \<not> isFinite cp \<or> (\<exists>v. cp = Num v \<and> v \<le> 0)"
  show "generatePayoffData legs cp = []"
    using h by (cases cp) (auto simp: generatePayoffData_def)
  show "variations (buildPayoffCurve legs cp rangePct n) = []"
    using h by (cases cp) (auto simp: buildPayoffCurve_def)
  show "returns (buildPayoffCurve legs cp rangePct n) = []"
    using h by (cases cp) (auto simp: buildPayoffCurve_def)
next
  have e: "referencePoints legs cp = [] \<longleftrightarrow>
      (\<not> (\<exists>v. cp = Num v \<and> 0 < v) \<and>
       (\<forall>leg \<in> set legs. \<forall>k. instrument leg = OPTION \<and> strike leg = Some k \<longrightarrow> k \<le> 0) \<and>
       (\<forall>leg \<in> set legs. instrument leg = UNDERLYING \<longrightarrow> premium leg \<le> 0))"
  proof -
    have "referencePoints legs cp = [] \<longleftrightarrow> set (referencePoints legs cp) = {}" by simp
    also have "\<dots> \<longleftrightarrow>
      (\<not> (\<exists>v. cp = Num v \<and> 0 < v) \<and>
       (\<forall>leg \<in> set legs. \<forall>k. instrument leg = OPTION \<and> strike leg = Some k \<longrightarrow> k \<le> 0) \<and>
       (\<forall>leg \<in> set legs. instrument leg = UNDERLYING \<longrightarrow> premium leg \<le> 0))"
      unfolding referencePoints_set by (auto simp: not_less)
    finally show ?thesis .
  qed
  have l: "generatePayoffDataAbsolute legs cp = [] \<longleftrightarrow> legs = [] \<or> referencePoints legs cp = []"
    using absolute_length [of legs cp] by (auto split: if_splits)
  show "generatePayoffDataAbsolute legs cp = [] \<longleftrightarrow>
      legs = [] \<or>
      (\<not> (\<exists>v. cp = Num v \<and> 0 < v) \<and>
       (\<forall>leg \<in> set legs. \<forall>k. instrument leg = OPTION \<and> strike leg = Some k \<longrightarrow> k \<le> 0) \<and>
       (\<forall>leg \<in> set legs. instrument leg = UNDERLYING \<longrightarrow> premium leg \<le> 0))"
    unfolding l e ..
next
  assume "generatePayoffDataAbsolute legs cp \<noteq> []"
  then show "length (generatePayoffDataAbsolute legs cp) = 321"
    using absolute_length [of legs cp] by (auto split: if_splits)
next
  assume a: "leg \<in> set legs \<and> instrument leg = OPTION \<and> strike leg = Some k \<and> 0 < k"
  then have "k \<in> set (referencePoints legs cp)" unfolding referencePoints_set by auto
  then have "referencePoints legs cp \<noteq> []" by auto
  moreover have "legs \<noteq> []" using a by auto
  ultimately show "length (generatePayoffDataAbsolute legs cp) = 321"
    by (simp add: absolute_length)
qed

theorem empty_curve_witness:
  "\<not> isFinite NaN \<and> generatePayoffData [leg0] NaN = [] \<and>
   variations (buildPayoffCurve [leg0] NaN (3 / 10) 250) = [] \<and>
   generatePayoffDataAbsolute [] (Num 30) = [] \<and>
   leg0 \<in> set [leg0] \<and> instrument leg0 = OPTION \<and> strike leg0 = Some 30 \<and>
   length (generatePayoffDataAbsolute [leg0] NaN) = 321 \<and>
   generatePayoffDataAbsolute [leg0\<lparr>strike := Some (- 3)\<rparr>] (Num 0) = []"
proof -
  have a: "leg0 \<in> set [leg0] \<and> instrument leg0 = OPTION \<and> strike leg0 = Some 30 \<and> (0 :: real) < 30"
    by (simp add: leg0_def)
  have b: "\<not> (\<exists>v. Num 0 = Num v \<and> 0 < v) \<and>
       (\<forall>leg \<in> set [leg0\<lparr>strike := Some (- 3)\<rparr>]. \<forall>k. instrument leg = OPTION \<and> strike leg = Some k \<longrightarrow> k \<le> 0) \<and>
       (\<forall>leg \<in> set [leg0\<lparr>strike := Some (- 3)\<rparr>]. instrument leg = UNDERLYING \<longrightarrow> premium leg \<le> 0)"
    by (simp add: leg0_def)
  from empty_curve [of "[leg0]" NaN "3 / 10" 250 leg0 30]
       empty_curve [of "[]" "Num 30" "3 / 10" 250 leg0 30]
       empty_curve [of "[leg0\<lparr>strike := Some (- 3)\<rparr>]" "Num 0" "3 / 10" 250 leg0 30] a b
  show ?thesis by simp
qed

text \<open>
  With a call struck at 30, the absolute-price sweep has its 321 points although the
  current price is NaN, or negative.
\<close>

theorem absolute_sweep_counterexample:
  "length (generatePayoffDataAbsolute [leg0] NaN) = 321 \<and>
   length (generatePayoffDataAbsolute [leg0] (Num (- 5))) = 321"
  by (simp add: generatePayoffDataAbsolute_def referencePoints_def leg0_def Let_def
        List.map_filter_simps del: upt_Suc)

section \<open>The preconditions of the backtest\<close>

text \<open>
  C7, as the code has it. With an empty history, a curve without variations or a base
  capital that is not positive, \<open>runBacktest\<close> returns no rows, empty chart series and
  metrics whose three capital fields are the base capital cut off below at zero and whose
  other fields are zero.
\<close>

theorem runBacktest_empty:
  assumes "length (history inp) = 0 \<or> length (variations (payoff inp)) = 0 \<or> baseCapital inp \<le> 0"
  shows "runBacktest inp =
     \<lparr>rows = [], chart = \<lparr>points = [], equity = []\<rparr>,
      metrics =
        \<lparr>initialCapital = max (baseCapital inp) 0,
         finalCapitalNoWithdrawal = max (baseCapital inp) 0,
         finalCapitalWithWithdrawal = max (baseCapital inp) 0,
         totalProfitPct = 0, avgMonthlyProfit = 0, monthlyEquivalentRate = 0,
         profitWithWithdrawalPct = 0, monthlyRateWithWithdrawal = 0, monthlyIrr = 0,
         wins = 0, losses = 0\<rparr>\<rparr>"
  using assms by (auto simp: runBacktest_def emptyMetrics_def Let_def max_def)

theorem runBacktest_empty_witness:
  "length (history noHistoryInput) = 0 \<and>
   rows (runBacktest noHistoryInput) = [] \<and>
   equity (chart (runBacktest noHistoryInput)) = [] \<and>
   monthlyIrr (metrics (runBacktest noHistoryInput)) = 0"
proof -
  have h: "length (history noHistoryInput) = 0" by (simp add: noHistoryInput_def)
  then have "length (history noHistoryInput) = 0 \<or> length (variations (payoff noHistoryInput)) = 0 \<or> baseCapital noHistoryInput \<le> 0" by simp
  from runBacktest_empty [OF this] h show ?thesis by simp
qed

text \<open>
  With an empty history and a base capital of 1000 the metrics are not all zero: the three
  capital fields are 1000.
\<close>

theorem runBacktest_empty_metrics_counterexample:
  "rows (runBacktest noHistoryInput) = [] \<and>
   initialCapital (metrics (runBacktest noHistoryInput)) = 1000 \<and>
   finalCapitalNoWithdrawal (metrics (runBacktest noHistoryInput)) = 1000 \<and>
   finalCapitalWithWithdrawal (metrics (runBacktest noHistoryInput)) = 1000"
  by (simp add: runBacktest_def noHistoryInput_def emptyMetrics_def)

section \<open>The loop of the backtest\<close>

lemma finiteReturn_cases:
  "finiteReturn p \<longleftrightarrow> (\<exists>r. returnPct p = Some (Num r))"
  by (cases "returnPct p"; simp add: finiteReturn_def) (metis isFinite.elims(2) isFinite.simps(1))

lemma step_finite:
  "returnPct p = Some (Num r) \<Longrightarrow>
   backtestStep c sc lo w i p s =
     periodStep c sc lo w i (HistoryPoint.time p) r (setLossBase lo (HistoryPoint.time p) s)"
  by (simp add: backtestStep_def Let_def)

lemma step_placeholder:
  "\<not> finiteReturn p \<Longrightarrow>
   backtestStep c sc lo w i p s =
     placeholderStep (HistoryPoint.time p) (setLossBase lo (HistoryPoint.time p) s)"
  by (auto simp: backtestStep_def Let_def finiteReturn_def split: option.splits jsnum.splits)

lemma setLossBase_simps [simp]:
  "rowsAcc (setLossBase lo d s) = rowsAcc s"
  "chartPoints (setLossBase lo d s) = chartPoints s"
  "equityPoints (setLossBase lo d s) = equityPoints s"
  "curWith (setLossBase lo d s) = curWith s"
  "curWithout (setLossBase lo d s) = curWithout s"
  "firstPeriod (setLossBase lo d s) = firstPeriod s"
  "lossMonths (setLossBase lo d s) = lossMonths s"
  "winsAcc (setLossBase lo d s) = winsAcc s"
  "lossesAcc (setLossBase lo d s) = lossesAcc s"
  by (simp_all add: setLossBase_def)

lemma setLossBase_id: "(lo \<longrightarrow> lossBaseYear s \<noteq> None) \<Longrightarrow> setLossBase lo d s = s"
  by (auto simp: setLossBase_def)

lemma setLossBase_set: "lo \<Longrightarrow> lossBaseYear (setLossBase lo d s) \<noteq> None"
  by (auto simp: setLossBase_def)

lemma periodStep_simps:
  "firstPeriod (periodStep c sc lo w i d r s) = False"
  "lossBaseYear (periodStep c sc lo w i d r s) = lossBaseYear s"
  "lossBaseMonth (periodStep c sc lo w i d r s) = lossBaseMonth s"
  by (simp_all add: periodStep_def Let_def split: prod.splits)


lemma lossInjection_nonneg: "0 \<le> fst (lossInjection lo by bm M d)"
  by (simp add: lossInjection_def Let_def split: option.splits)

lemma periodStep_equity:
  "equityPoints (periodStep c sc lo w i d r s) =
     equityPoints s @
       [\<lparr>EquityPoint.time = getTime d,
         capitalWith = curWith (periodStep c sc lo w i d r s),
         capitalWithout = curWithout (periodStep c sc lo w i d r s)\<rparr>]"
  by (simp add: periodStep_def Let_def split: prod.splits)

lemma periodStep_row_capital:
  "map capital (rowsAcc (periodStep c sc lo w i d r s)) =
     map capital (rowsAcc s) @ [curWith (periodStep c sc lo w i d r s)]"
  by (simp add: periodStep_def Let_def split: prod.splits)

lemma periodStep_cur:
  fixes c sc r s lo d
  defines "q \<equiv> (if sc > 0 then linearInterpolate r (variations c) (returns c) / sc else 0)"
    and "h \<equiv> fst (lossInjection lo (lossBaseYear s) (lossBaseMonth s) (lossMonths s) d)"
  shows "curWithout (periodStep c sc lo w i d r s) = curWithout s * (1 + q) * (1 - h)"
    and "curWith (periodStep c sc lo w i d r s) = curWith s * (1 + q) * (1 - h) - w + i"
proof -
  obtain h' ev M where li:
    "lossInjection lo (lossBaseYear s) (lossBaseMonth s) (lossMonths s) d = (h', ev, M)"
    by (cases "lossInjection lo (lossBaseYear s) (lossBaseMonth s) (lossMonths s) d") auto
  have hh: "h = h'" by (simp add: h_def li)
  have "0 \<le> h'" using lossInjection_nonneg [of lo "lossBaseYear s" "lossBaseMonth s" "lossMonths s" d]
    by (simp add: li)
  then have z: "\<not> 0 < h' \<Longrightarrow> h' = 0" by simp
  show "curWithout (periodStep c sc lo w i d r s) = curWithout s * (1 + q) * (1 - h)"
    using z by (cases "0 < h'") (simp_all add: periodStep_def Let_def li hh q_def)
  show "curWith (periodStep c sc lo w i d r s) = curWith s * (1 + q) * (1 - h) - w + i"
    using z by (cases "0 < h'") (simp_all add: periodStep_def Let_def li hh q_def)
qed

lemma periodStep_tracks:
  "curWith s = curWithout s \<Longrightarrow>
   curWith (periodStep c sc lo 0 0 d r s) = curWithout (periodStep c sc lo 0 0 d r s)"
  by (simp add: periodStep_cur)

lemma tracksAgree_step:
  assumes "tracksAgree s"
  shows "tracksAgree (backtestStep c sc lo 0 0 p s)"
proof (cases "finiteReturn p")
  case True
  then obtain r where r: "returnPct p = Some (Num r)" by (auto simp: finiteReturn_cases)
  let ?s1 = "setLossBase lo (HistoryPoint.time p) s"
  let ?s' = "periodStep c sc lo 0 0 (HistoryPoint.time p) r ?s1"
  have eq: "curWith ?s' = curWithout ?s'"
    using assms by (intro periodStep_tracks) (simp add: tracksAgree_def)
  have "tracksAgree ?s'"
    unfolding tracksAgree_def
    using assms eq
    by (simp add: periodStep_equity periodStep_row_capital tracksAgree_def)
  then show ?thesis by (simp add: step_finite [OF r])
next
  case False
  then show ?thesis using assms
    by (simp add: step_placeholder placeholderStep_def tracksAgree_def)
qed

lemma tracksAgree_loop:
  "tracksAgree s \<Longrightarrow> tracksAgree (backtestLoop c sc lo 0 0 hist s)"
  unfolding backtestLoop_def
  by (induction hist arbitrary: s) (simp_all add: tracksAgree_step)

lemma tracksAgree_initial: "tracksAgree (initialState sc)"
  by (simp add: tracksAgree_def initialState_def)

text \<open>
  C9. With a monthly withdrawal of zero, a monthly investment of zero (or none) and
  synthetic losses off, the two equity tracks coincide throughout the run: every equity
  point has \<open>capitalWith = capitalWithout\<close>, the capital of every row is the
  \<open>capitalWithout\<close> of its equity point, and the two final capitals of the metrics agree.
\<close>

theorem equity_tracks_coincide:
  assumes "monthlyWithdrawal inp = 0"
    and "monthlyInvestment inp = None \<or> monthlyInvestment inp = Some 0"
    and "\<not> applyLosses inp"
  shows "(\<forall>e \<in> set (equity (chart (runBacktest inp))). capitalWith e = capitalWithout e) \<and>
         map capital (rows (runBacktest inp)) =
           map capitalWithout (equity (chart (runBacktest inp))) \<and>
         finalCapitalWithWithdrawal (metrics (runBacktest inp)) =
           finalCapitalNoWithdrawal (metrics (runBacktest inp))"
proof -
  have "tracksAgree (runLoop inp)"
    using assms(1,2) by (auto simp: runLoop_def Let_def tracksAgree_loop tracksAgree_initial)
  then have a: "\<forall>e \<in> set (equityPoints (runLoop inp)). capitalWith e = capitalWithout e"
    and b: "map capital (rowsAcc (runLoop inp)) = map capitalWithout (equityPoints (runLoop inp))"
    by (simp_all add: tracksAgree_def)
  have c: "equityPoints (runLoop inp) \<noteq> [] \<Longrightarrow>
        capitalWith (equityPoints (runLoop inp) ! (length (equityPoints (runLoop inp)) - 1)) =
        capitalWithout (equityPoints (runLoop inp) ! (length (equityPoints (runLoop inp)) - 1))"
    using a by simp
  show ?thesis
    using a b c by (simp add: runBacktest_def Let_def emptyMetrics_def summarise_def)
qed


theorem equity_tracks_coincide_witness:
  "monthlyWithdrawal sampleInput = 0 \<and> monthlyInvestment sampleInput = None \<and>
   \<not> applyLosses sampleInput \<and>
   map capital (rows (runBacktest sampleInput)) =
     map capitalWithout (equity (chart (runBacktest sampleInput))) \<and>
   finalCapitalWithWithdrawal (metrics (runBacktest sampleInput)) =
     finalCapitalNoWithdrawal (metrics (runBacktest sampleInput))"
proof -
  have h: "monthlyWithdrawal sampleInput = 0"
    "monthlyInvestment sampleInput = None \<or> monthlyInvestment sampleInput = Some 0"
    "\<not> applyLosses sampleInput"
    by (simp_all add: sampleInput_def)
  from equity_tracks_coincide [OF h] h show ?thesis by (simp add: sampleInput_def)
qed


section \<open>Placeholder rows\<close>

lemma settled_step: "settled lo (backtestStep c sc lo w i p s)"
proof (cases "finiteReturn p")
  case True
  then obtain r where r: "returnPct p = Some (Num r)" by (auto simp: finiteReturn_cases)
  show ?thesis
    by (simp add: step_finite [OF r] settled_def periodStep_simps setLossBase_set)
next
  case False
  then show ?thesis
    by (auto simp: step_placeholder settled_def placeholderStep_def setLossBase_def)
qed

lemma settled_loop:
  "hist \<noteq> [] \<or> settled lo s \<Longrightarrow> settled lo (backtestLoop c sc lo w i hist s)"
  unfolding backtestLoop_def
  by (induction hist arbitrary: s) (auto simp: settled_step)

lemma skipped_step:
  "\<not> finiteReturn p \<Longrightarrow> settled lo s \<Longrightarrow> backtestStep c sc lo w i p s = s"
  by (simp add: step_placeholder settled_def setLossBase_id placeholderStep_def)

lemma skipped_loop:
  assumes "\<not> finiteReturn p" and "pre \<noteq> []"
  shows "backtestLoop c sc lo w i (pre @ p # post) s = backtestLoop c sc lo w i (pre @ post) s"
proof -
  have "settled lo (backtestLoop c sc lo w i pre s)"
    using assms(2) by (simp add: settled_loop)
  then have "backtestStep c sc lo w i p (fold (backtestStep c sc lo w i) pre s) =
             fold (backtestStep c sc lo w i) pre s"
    using assms(1) by (simp add: skipped_step backtestLoop_def)
  then show ?thesis by (simp add: backtestLoop_def)
qed

lemma first_placeholder:
  "\<not> finiteReturn p \<Longrightarrow>
   backtestStep c sc lo w i p (initialState sc) =
     (setLossBase lo (HistoryPoint.time p) (initialState sc))
       \<lparr>rowsAcc := [anchorRow (HistoryPoint.time p) sc],
        chartPoints := [anchorPoint (HistoryPoint.time p)],
        equityPoints := [anchorEquity (HistoryPoint.time p) sc],
        firstPeriod := False\<rparr>"
  by (simp add: step_placeholder placeholderStep_def initialState_def anchorRow_def
        anchorPoint_def anchorEquity_def setLossBase_def)

lemma step_appends:
  "\<exists>rs cs es. rowsAcc (backtestStep c sc lo w i p s) = rowsAcc s @ rs \<and>
     chartPoints (backtestStep c sc lo w i p s) = chartPoints s @ cs \<and>
     equityPoints (backtestStep c sc lo w i p s) = equityPoints s @ es \<and>
     length rs = (if finiteReturn p \<or> firstPeriod s then 1 else 0) \<and>
     length cs = length rs \<and> length es = length rs"
proof (cases "finiteReturn p")
  case True
  then obtain r where r: "returnPct p = Some (Num r)" by (auto simp: finiteReturn_cases)
  show ?thesis using True
    by (simp add: step_finite [OF r] periodStep_def Let_def split: prod.splits)
next
  case False
  then show ?thesis
    by (simp add: step_placeholder placeholderStep_def)
qed

lemma loop_appends:
  "\<exists>rs cs es. rowsAcc (backtestLoop c sc lo w i hist s) = rowsAcc s @ rs \<and>
     chartPoints (backtestLoop c sc lo w i hist s) = chartPoints s @ cs \<and>
     equityPoints (backtestLoop c sc lo w i hist s) = equityPoints s @ es \<and>
     length rs = length (filter finiteReturn hist) +
        (if firstPeriod s \<and> hist \<noteq> [] \<and> \<not> finiteReturn (hd hist) then 1 else 0) \<and>
     length cs = length rs \<and> length es = length rs"
proof (induction hist arbitrary: s)
  case Nil
  then show ?case by (simp add: backtestLoop_def)
next
  case (Cons p hist)
  let ?s1 = "backtestStep c sc lo w i p s"
  obtain rs1 cs1 es1 where 1: "rowsAcc ?s1 = rowsAcc s @ rs1" "chartPoints ?s1 = chartPoints s @ cs1"
     "equityPoints ?s1 = equityPoints s @ es1" "length rs1 = (if finiteReturn p \<or> firstPeriod s then 1 else 0)"
     "length cs1 = length rs1" "length es1 = length rs1"
    using step_appends [of c sc lo w i p s] by blast
  obtain rs2 cs2 es2 where 2: "rowsAcc (backtestLoop c sc lo w i hist ?s1) = rowsAcc ?s1 @ rs2"
     "chartPoints (backtestLoop c sc lo w i hist ?s1) = chartPoints ?s1 @ cs2"
     "equityPoints (backtestLoop c sc lo w i hist ?s1) = equityPoints ?s1 @ es2"
     "length rs2 = length (filter finiteReturn hist) +
        (if firstPeriod ?s1 \<and> hist \<noteq> [] \<and> \<not> finiteReturn (hd hist) then 1 else 0)"
     "length cs2 = length rs2" "length es2 = length rs2"
    using Cons.IH [of ?s1] by blast
  have nf: "\<not> firstPeriod ?s1" using settled_step [of lo c sc w i p s] by (simp add: settled_def)
  have l: "backtestLoop c sc lo w i (p # hist) s = backtestLoop c sc lo w i hist ?s1"
    by (simp add: backtestLoop_def)
  show ?case
    apply (rule exI [of _ "rs1 @ rs2"], rule exI [of _ "cs1 @ cs2"], rule exI [of _ "es1 @ es2"])
    using 1 2 nf by (simp add: l)
qed


lemma runLoop_history:
  "runLoop (inp\<lparr>history := h\<rparr>) =
     backtestLoop (payoff inp) (if baseCapital inp > 0 then baseCapital inp else 0)
       (applyLosses inp)
       (if frequency inp = WEEKLY then monthlyWithdrawal inp / WEEKLY_PERIODS_PER_MONTH
        else monthlyWithdrawal inp)
       (if frequency inp = WEEKLY
        then (case monthlyInvestment inp of None \<Rightarrow> 0 | Some v \<Rightarrow> v) / WEEKLY_PERIODS_PER_MONTH
        else (case monthlyInvestment inp of None \<Rightarrow> 0 | Some v \<Rightarrow> v))
       h (initialState (if baseCapital inp > 0 then baseCapital inp else 0))"
  by (simp add: runLoop_def Let_def)

lemma runBacktest_rows:
  assumes "h \<noteq> []" and "length (variations (payoff inp)) \<noteq> 0" and "baseCapital inp > 0"
  shows "rows (runBacktest (inp\<lparr>history := h\<rparr>)) = rowsAcc (runLoop (inp\<lparr>history := h\<rparr>))"
    and "points (chart (runBacktest (inp\<lparr>history := h\<rparr>))) = chartPoints (runLoop (inp\<lparr>history := h\<rparr>))"
    and "equity (chart (runBacktest (inp\<lparr>history := h\<rparr>))) = equityPoints (runLoop (inp\<lparr>history := h\<rparr>))"
  using assms by (simp_all add: runBacktest_def Let_def)

lemma skipped_run:
  assumes "\<not> finiteReturn p" and "pre \<noteq> []"
  shows "runBacktest (inp\<lparr>history := pre @ p # post\<rparr>) = runBacktest (inp\<lparr>history := pre @ post\<rparr>)"
proof -
  have "runLoop (inp\<lparr>history := pre @ p # post\<rparr>) = runLoop (inp\<lparr>history := pre @ post\<rparr>)"
    by (simp only: runLoop_history skipped_loop [OF assms])
  then show ?thesis using assms(2) by (simp add: runBacktest_def Let_def)
qed

lemma first_run:
  assumes "length (variations (payoff inp)) \<noteq> 0" and "baseCapital inp > 0"
  shows "\<exists>rs cs es.
           rowsAcc (runLoop (inp\<lparr>history := p # post\<rparr>)) =
             (if finiteReturn p then [] else [anchorRow (HistoryPoint.time p) (baseCapital inp)]) @ rs \<and>
           chartPoints (runLoop (inp\<lparr>history := p # post\<rparr>)) =
             (if finiteReturn p then [] else [anchorPoint (HistoryPoint.time p)]) @ cs \<and>
           equityPoints (runLoop (inp\<lparr>history := p # post\<rparr>)) =
             (if finiteReturn p then [] else [anchorEquity (HistoryPoint.time p) (baseCapital inp)]) @ es \<and>
           length rs = length (filter finiteReturn (p # post)) \<and>
           length cs = length rs \<and> length es = length rs"
proof (cases "finiteReturn p")
  case True
  show ?thesis
    using loop_appends [of "payoff inp" _ "applyLosses inp" _ _ "p # post" "initialState (baseCapital inp)"]
      True assms(2)
    by (simp add: runLoop_history initialState_def)
next
  case False
  let ?c = "payoff inp" and ?sc = "baseCapital inp" and ?lo = "applyLosses inp"
  obtain w i where l: "\<And>h. runLoop (inp\<lparr>history := h\<rparr>) = backtestLoop ?c ?sc ?lo w i h (initialState ?sc)"
    using assms(2) by (simp add: runLoop_history)
  let ?s1 = "backtestStep ?c ?sc ?lo w i p (initialState ?sc)"
  have s1: "rowsAcc ?s1 = [anchorRow (HistoryPoint.time p) ?sc]"
    "chartPoints ?s1 = [anchorPoint (HistoryPoint.time p)]"
    "equityPoints ?s1 = [anchorEquity (HistoryPoint.time p) ?sc]"
    "\<not> firstPeriod ?s1"
    by (simp_all add: first_placeholder [OF False])
  have "backtestLoop ?c ?sc ?lo w i (p # post) (initialState ?sc) = backtestLoop ?c ?sc ?lo w i post ?s1"
    by (simp add: backtestLoop_def)
  then show ?thesis
    using loop_appends [of ?c ?sc ?lo w i post ?s1] s1 False
    by (simp add: l)
qed

text \<open>
  C10. A run emits at most one placeholder row. A point whose return is null or not finite
  and that comes after any other point is skipped entirely: the result of the run is that
  of the history without it. On a run that passes the preconditions, the first point of the
  history yields the anchor row, chart point and equity point (zero returns, profit and
  cash flows, no loss event, the base capital on both tracks) exactly when its return is
  null or not finite; every further row, chart point and equity point belongs to a point
  with a finite return, one each.
\<close>

theorem placeholder_once:
  "(\<not> finiteReturn p \<and> pre \<noteq> [] \<longrightarrow>
      runBacktest (inp\<lparr>history := pre @ p # post\<rparr>) = runBacktest (inp\<lparr>history := pre @ post\<rparr>)) \<and>
   (length (variations (payoff inp)) \<noteq> 0 \<and> baseCapital inp > 0 \<longrightarrow>
      (\<exists>rs cs es.
         rows (runBacktest (inp\<lparr>history := p # post\<rparr>)) =
           (if finiteReturn p then [] else [anchorRow (HistoryPoint.time p) (baseCapital inp)]) @ rs \<and>
         points (chart (runBacktest (inp\<lparr>history := p # post\<rparr>))) =
           (if finiteReturn p then [] else [anchorPoint (HistoryPoint.time p)]) @ cs \<and>
         equity (chart (runBacktest (inp\<lparr>history := p # post\<rparr>))) =
           (if finiteReturn p then [] else [anchorEquity (HistoryPoint.time p) (baseCapital inp)]) @ es \<and>
         length rs = length (filter finiteReturn (p # post)) \<and>
         length cs = length rs \<and> length es = length rs))"
proof (intro conjI impI)
  assume "\<not> finiteReturn p \<and> pre \<noteq> []"
  then show "runBacktest (inp\<lparr>history := pre @ p # post\<rparr>) = runBacktest (inp\<lparr>history := pre @ post\<rparr>)"
    by (simp add: skipped_run)
next
  assume a: "length (variations (payoff inp)) \<noteq> 0 \<and> baseCapital inp > 0"
  then have "p # post \<noteq> []" "length (variations (payoff inp)) \<noteq> 0" "baseCapital inp > 0" by simp_all
  note r = runBacktest_rows [OF this]
  show "\<exists>rs cs es.
         rows (runBacktest (inp\<lparr>history := p # post\<rparr>)) =
           (if finiteReturn p then [] else [anchorRow (HistoryPoint.time p) (baseCapital inp)]) @ rs \<and>
         points (chart (runBacktest (inp\<lparr>history := p # post\<rparr>))) =
           (if finiteReturn p then [] else [anchorPoint (HistoryPoint.time p)]) @ cs \<and>
         equity (chart (runBacktest (inp\<lparr>history := p # post\<rparr>))) =
           (if finiteReturn p then [] else [anchorEquity (HistoryPoint.time p) (baseCapital inp)]) @ es \<and>
         length rs = length (filter finiteReturn (p # post)) \<and>
         length cs = length rs \<and> length es = length rs"
    unfolding r using first_run [of inp p post] a by simp
qed

theorem placeholder_once_witness:
  "\<not> finiteReturn nullPoint \<and> [nullPoint] \<noteq> [] \<and>
   runBacktest (sampleInput\<lparr>history := [nullPoint] @ nullPoint # tl sampleHistory\<rparr>) =
     runBacktest (sampleInput\<lparr>history := [nullPoint] @ tl sampleHistory\<rparr>) \<and>
   length (variations (payoff sampleInput)) \<noteq> 0 \<and> baseCapital sampleInput > 0 \<and>
   (\<exists>rs. rows (runBacktest (sampleInput\<lparr>history := nullPoint # tl sampleHistory\<rparr>)) =
           [anchorRow jun2020 1000] @ rs \<and> length rs = 2)"
proof -
  have n: "\<not> finiteReturn nullPoint" by (simp add: finiteReturn_def nullPoint_def)
  have v: "length (variations (payoff sampleInput)) \<noteq> 0 \<and> baseCapital sampleInput > 0"
    by (simp add: sampleInput_def flatCurve_def)
  have f: "length (filter finiteReturn (nullPoint # tl sampleHistory)) = 2"
    by (simp add: finiteReturn_def nullPoint_def sampleHistory_def junPoint_def octPoint_def)
  have t: "HistoryPoint.time nullPoint = jun2020" "baseCapital sampleInput = 1000"
    by (simp_all add: nullPoint_def sampleInput_def)
  from placeholder_once [where p = nullPoint and pre = "[nullPoint]" and inp = sampleInput
         and post = "tl sampleHistory"] n v f t
  show ?thesis by auto
qed

section \<open>The loss clock\<close>

lemma haircutOf_bounds: "0 \<le> haircutOf k" "haircutOf k \<le> 99 / 100"
  by (simp_all add: haircutOf_def)

lemma lossInjection_char:
  "lossInjection lo (Some y) (Some m) M d =
     (if lo \<and> clockMonth y m d > 0 \<and> clockMonth y m d \<notin> M \<and> haircutOf (clockMonth y m d) > 0
      then (haircutOf (clockMonth y m d), True, insert (clockMonth y m d) M)
      else (0, False, M))"
  by (simp add: lossInjection_def clockMonth_def haircutOf_def Let_def)

lemma periodStep_loss:
  "\<exists>row. rowsAcc (periodStep c sc lo w i d r s) = rowsAcc s @ [row] \<and>
     BacktestRow.time row = d \<and>
     lossEvent row = fst (snd (lossInjection lo (lossBaseYear s) (lossBaseMonth s) (lossMonths s) d)) \<and>
     lossMonths (periodStep c sc lo w i d r s) =
       snd (snd (lossInjection lo (lossBaseYear s) (lossBaseMonth s) (lossMonths s) d))"
  by (simp add: periodStep_def Let_def split: prod.splits)

lemma clockInvariant_first:
  "clockInvariant (getFullYear (HistoryPoint.time p0)) (getMonth (HistoryPoint.time p0) + 1)
     (backtestStep c sc True w i p0 (initialState sc))"
proof (cases "finiteReturn p0")
  case True
  then obtain r where r: "returnPct p0 = Some (Num r)" by (auto simp: finiteReturn_cases)
  let ?d = "HistoryPoint.time p0"
  let ?s1 = "setLossBase True ?d (initialState sc)"
  have b: "lossBaseYear ?s1 = Some (getFullYear ?d)" "lossBaseMonth ?s1 = Some (getMonth ?d + 1)"
    "lossMonths ?s1 = {}" "rowsAcc ?s1 = []"
    by (simp_all add: initialState_def) (simp_all add: setLossBase_def initialState_def)
  have k: "clockMonth (getFullYear ?d) (getMonth ?d + 1) ?d = 1" by (simp add: clockMonth_def)
  have li: "lossInjection True (Some (getFullYear ?d)) (Some (getMonth ?d + 1)) {} ?d = (0, False, {})"
    by (simp add: lossInjection_char k haircutOf_def)
  obtain row where row0: "rowsAcc (periodStep c sc True w i ?d r ?s1) = rowsAcc ?s1 @ [row]"
    "lossEvent row =
       fst (snd (lossInjection True (lossBaseYear ?s1) (lossBaseMonth ?s1) (lossMonths ?s1) ?d))"
    "lossMonths (periodStep c sc True w i ?d r ?s1) =
       snd (snd (lossInjection True (lossBaseYear ?s1) (lossBaseMonth ?s1) (lossMonths ?s1) ?d))"
    using periodStep_loss [of c sc True w i ?d r ?s1] by blast
  have row: "rowsAcc (periodStep c sc True w i ?d r ?s1) = [row]"
    "\<not> lossEvent row" "lossMonths (periodStep c sc True w i ?d r ?s1) = {}"
    using row0 unfolding b li by simp_all
  show ?thesis
    by (simp add: step_finite [OF r] clockInvariant_def periodStep_simps b row)
next
  case False
  show ?thesis
    unfolding first_placeholder [OF False]
    by (simp add: clockInvariant_def setLossBase_def initialState_def anchorRow_def)
qed

lemma clockInvariant_step:
  assumes "clockInvariant y m s"
  shows "clockInvariant y m (backtestStep c sc True w i p s)"
proof (cases "finiteReturn p")
  case True
  then obtain r where r: "returnPct p = Some (Num r)" by (auto simp: finiteReturn_cases)
  let ?d = "HistoryPoint.time p"
  have s1: "setLossBase True ?d s = s" using assms by (simp add: setLossBase_id clockInvariant_def)
  let ?k = "clockMonth y m ?d"
  let ?K = "\<lambda>r. clockMonth y m (BacktestRow.time r)"
  have b: "lossBaseYear s = Some y" "lossBaseMonth s = Some m"
    and M: "lossMonths s = set (map ?K (filter lossEvent (rowsAcc s)))"
    and D: "distinct (map ?K (filter lossEvent (rowsAcc s)))"
    using assms by (simp_all add: clockInvariant_def)
  obtain row where row: "rowsAcc (periodStep c sc True w i ?d r s) = rowsAcc s @ [row]"
    "BacktestRow.time row = ?d"
    "lossEvent row = fst (snd (lossInjection True (Some y) (Some m) (lossMonths s) ?d))"
    "lossMonths (periodStep c sc True w i ?d r s) =
       snd (snd (lossInjection True (Some y) (Some m) (lossMonths s) ?d))"
    using periodStep_loss [of c sc True w i ?d r s] by (auto simp: b)
  show ?thesis
  proof (cases "?k > 0 \<and> ?k \<notin> lossMonths s \<and> haircutOf ?k > 0")
    case True
    then have "lossEvent row" "lossMonths (periodStep c sc True w i ?d r s) = insert ?k (lossMonths s)"
      using row(3,4) by (simp_all add: lossInjection_char)
    then show ?thesis using True M D
      by (simp add: step_finite [OF r] s1 clockInvariant_def periodStep_simps b row(1,2))
  next
    case False
    then have "\<not> lossEvent row" "lossMonths (periodStep c sc True w i ?d r s) = lossMonths s"
      using row(3,4) by (auto simp: lossInjection_char)
    then show ?thesis using M D
      by (simp add: step_finite [OF r] s1 clockInvariant_def periodStep_simps b row(1))
  qed
next
  case False
  have "settled True s" using assms by (simp add: settled_def clockInvariant_def)
  then show ?thesis using assms by (simp add: skipped_step [OF False])
qed

lemma clockInvariant_loop:
  "clockInvariant y m s \<Longrightarrow> clockInvariant y m (backtestLoop c sc True w i hist s)"
  unfolding backtestLoop_def
  by (induction hist arbitrary: s) (simp_all add: clockInvariant_step)

lemma clockInvariant_run:
  "clockInvariant (getFullYear (HistoryPoint.time p0)) (getMonth (HistoryPoint.time p0) + 1)
     (backtestLoop c sc True w i (p0 # hist) (initialState sc))"
  using clockInvariant_loop [OF clockInvariant_first, of p0 c sc w i hist]
  by (simp add: backtestLoop_def)


lemma runLoop_append:
  "runLoop (inp\<lparr>history := h @ [p]\<rparr>) =
     backtestStep (payoff inp) (max (baseCapital inp) 0) (applyLosses inp)
       (periodAmount (frequency inp) (monthlyWithdrawal inp))
       (periodAmount (frequency inp) (investmentOf inp)) p
       (runLoop (inp\<lparr>history := h\<rparr>))"
proof -
  have m: "(if baseCapital inp > 0 then baseCapital inp else 0) = max (baseCapital inp) 0"
    by (simp add: max_def)
  show ?thesis
    unfolding runLoop_history m
    by (simp add: backtestLoop_def periodAmount_def investmentOf_def)
qed

lemma runLoop_clock:
  assumes "applyLosses inp"
  shows "clockInvariant (getFullYear (HistoryPoint.time p0)) (getMonth (HistoryPoint.time p0) + 1)
           (runLoop (inp\<lparr>history := p0 # pre\<rparr>))"
  unfolding runLoop_history using assms by (simp add: clockInvariant_run)

lemma periodStep_clock:
  fixes y m :: int and s :: LoopState and d :: Date and c sc w i r
  assumes "clockInvariant y m s"
  defines "k \<equiv> clockMonth y m d"
  defines "h \<equiv> (if k > 0 \<and> k \<notin> lossMonths s then haircutOf k else 0)"
  defines "s' \<equiv> periodStep c sc True w i d r s"
  shows "curWithout s' = curWithout s * (1 + strategyReturnPct c sc r) * (1 - h)"
    and "curWith s' = curWith s * (1 + strategyReturnPct c sc r) * (1 - h) - w + i"
    and "lossEvent (last (rowsAcc s')) = (h > 0)"
    and "lossMonths s' = (if h > 0 then insert k (lossMonths s) else lossMonths s)"
proof -
  have b: "lossBaseYear s = Some y" "lossBaseMonth s = Some m"
    using assms(1) by (simp_all add: clockInvariant_def)
  have nn: "0 \<le> haircutOf k" by (rule haircutOf_bounds)
  have li: "lossInjection True (lossBaseYear s) (lossBaseMonth s) (lossMonths s) d =
        (h, h > 0, if h > 0 then insert k (lossMonths s) else lossMonths s)"
    unfolding b using nn by (auto simp: lossInjection_char k_def h_def)
  show "curWithout s' = curWithout s * (1 + strategyReturnPct c sc r) * (1 - h)"
    and "curWith s' = curWith s * (1 + strategyReturnPct c sc r) * (1 - h) - w + i"
    unfolding s'_def by (simp_all add: periodStep_cur li strategyReturnPct_def)
  obtain row where row: "rowsAcc s' = rowsAcc s @ [row]"
    "lossEvent row = fst (snd (lossInjection True (lossBaseYear s) (lossBaseMonth s) (lossMonths s) d))"
    "lossMonths s' = snd (snd (lossInjection True (lossBaseYear s) (lossBaseMonth s) (lossMonths s) d))"
    unfolding s'_def using periodStep_loss [of c sc True w i d r s] by blast
  show "lossEvent (last (rowsAcc s')) = (h > 0)"
    using row(1,2) unfolding li by simp
  show "lossMonths s' = (if h > 0 then insert k (lossMonths s) else lossMonths s)"
    using row(3) unfolding li by simp
qed

lemma periodStep_row:
  "\<exists>row. rowsAcc (periodStep c sc lo w i d r s) = rowsAcc s @ [row] \<and>
     BacktestRow.time row = d \<and>
     capital row = curWith (periodStep c sc lo w i d r s) \<and>
     lossEvent row = fst (snd (lossInjection lo (lossBaseYear s) (lossBaseMonth s) (lossMonths s) d))"
  by (simp add: periodStep_def Let_def split: prod.splits)

lemma recorded_step:
  assumes "firstPeriod s \<or> recorded s"
  shows "recorded (backtestStep c sc lo w i p s)"
proof (cases "finiteReturn p")
  case True
  then obtain r where r: "returnPct p = Some (Num r)" by (auto simp: finiteReturn_cases)
  show ?thesis
    unfolding step_finite [OF r] recorded_def
    by (subst (1 2 3) periodStep_equity) simp
next
  case False
  show ?thesis using assms
    by (auto simp: step_placeholder [OF False] placeholderStep_def recorded_def)
qed

lemma recorded_loop:
  "firstPeriod s \<and> hist \<noteq> [] \<or> recorded s \<Longrightarrow> recorded (backtestLoop c sc lo w i hist s)"
proof (induction hist arbitrary: s)
  case Nil
  then show ?case by (simp add: backtestLoop_def)
next
  case (Cons p hist)
  have "recorded (backtestStep c sc lo w i p s)"
    using Cons.prems by (intro recorded_step) auto
  then have "recorded (backtestLoop c sc lo w i hist (backtestStep c sc lo w i p s))"
    by (intro Cons.IH) simp
  then show ?case by (simp add: backtestLoop_def)
qed

lemma runLoop_recorded: "recorded (runLoop (inp\<lparr>history := p0 # pre\<rparr>))"
  unfolding runLoop_history
  by (rule recorded_loop) (simp add: initialState_def)


lemma first_lossMonths:
  "lossMonths (backtestStep c sc True w i p0 (initialState sc)) = {}"
proof (cases "finiteReturn p0")
  case True
  then obtain r where r: "returnPct p0 = Some (Num r)" by (auto simp: finiteReturn_cases)
  let ?d = "HistoryPoint.time p0"
  let ?s1 = "setLossBase True ?d (initialState sc)"
  have b: "lossBaseYear ?s1 = Some (getFullYear ?d)" "lossBaseMonth ?s1 = Some (getMonth ?d + 1)"
    "lossMonths ?s1 = {}"
    by (simp_all add: initialState_def) (simp_all add: setLossBase_def initialState_def)
  have k: "clockMonth (getFullYear ?d) (getMonth ?d + 1) ?d = 1" by (simp add: clockMonth_def)
  have li: "lossInjection True (Some (getFullYear ?d)) (Some (getMonth ?d + 1)) {} ?d = (0, False, {})"
    by (simp add: lossInjection_char k haircutOf_def)
  obtain row where "lossMonths (periodStep c sc True w i ?d r ?s1) =
       snd (snd (lossInjection True (lossBaseYear ?s1) (lossBaseMonth ?s1) (lossMonths ?s1) ?d))"
    using periodStep_loss [of c sc True w i ?d r ?s1] by blast
  then have "lossMonths (periodStep c sc True w i ?d r ?s1) = {}"
    unfolding b li by simp
  then show ?thesis by (simp only: step_finite [OF r])
next
  case False
  show ?thesis
    unfolding first_placeholder [OF False]
    by (simp add: setLossBase_def initialState_def)
qed

lemma max_base: "0 < b \<Longrightarrow> max b (0 :: real) = b"
  by simp

text \<open>
  C3, as the code has it. With synthetic losses enabled, on a run that passes the
  preconditions, the first point of the history gives the loss clock its origin (year,
  month), whether or not that point has a return, and the run of the first point alone has
  no loss event. For every later period with a finite return, \<open>k\<close> is the number of months
  from the origin, the month of the origin counting as 1. The months that have fired are
  the clock-months of the rows marked as loss events so far. When \<open>k\<close> is positive and has
  not fired, the haircut \<open>h\<close> is 2 percent if \<open>k\<close> is a multiple of 6 plus 9 percent if \<open>k\<close>
  is a multiple of 10, each condition on its own; otherwise it is zero; it never exceeds 99
  percent. The period appends one row and one equity point: both tracks are the previous
  equity point's, times one plus the period return, times \<open>1 - h\<close>, the with-track then
  less the withdrawal plus the investment of the period; the row is a loss event exactly
  when \<open>h > 0\<close>. Over the whole run no two loss-event rows have the same clock-month.
\<close>

theorem loss_clock:
  assumes "applyLosses inp" and "length (variations (payoff inp)) \<noteq> 0"
    and "baseCapital inp > 0"
  shows
  "(let y0 = getFullYear (HistoryPoint.time p0);
        m0 = getMonth (HistoryPoint.time p0) + 1;
        month = (\<lambda>r. clockMonth y0 m0 (BacktestRow.time r));
        R = runBacktest (inp\<lparr>history := p0 # pre\<rparr>);
        R' = runBacktest (inp\<lparr>history := (p0 # pre) @ [p]\<rparr>);
        fired = set (map month (filter lossEvent (rows R)));
        k = clockMonth y0 m0 (HistoryPoint.time p);
        h = (if k > 0 \<and> k \<notin> fired then haircutOf k else 0);
        q = strategyReturnPct (payoff inp) (baseCapital inp) ret;
        e0 = last (equity (chart R))
    in lossBaseYear (runLoop (inp\<lparr>history := p0 # pre\<rparr>)) = Some y0 \<and>
       lossBaseMonth (runLoop (inp\<lparr>history := p0 # pre\<rparr>)) = Some m0 \<and>
       lossMonths (runLoop (inp\<lparr>history := p0 # pre\<rparr>)) = fired \<and>
       (\<forall>r \<in> set (rows (runBacktest (inp\<lparr>history := [p0]\<rparr>))). \<not> lossEvent r) \<and>
       equity (chart R) \<noteq> [] \<and>
       (returnPct p = Some (Num ret) \<longrightarrow>
          (\<exists>row e. rows R' = rows R @ [row] \<and>
             equity (chart R') = equity (chart R) @ [e] \<and>
             capitalWithout e = capitalWithout e0 * (1 + q) * (1 - h) \<and>
             capitalWith e = capitalWith e0 * (1 + q) * (1 - h)
               - periodAmount (frequency inp) (monthlyWithdrawal inp)
               + periodAmount (frequency inp) (investmentOf inp) \<and>
             capital row = capitalWith e \<and>
             BacktestRow.time row = HistoryPoint.time p \<and>
             lossEvent row = (h > 0) \<and> 0 \<le> h \<and> h \<le> 99 / 100)) \<and>
       distinct (map month (filter lossEvent (rows R))))"
proof -
  let ?y = "getFullYear (HistoryPoint.time p0)" and ?m = "getMonth (HistoryPoint.time p0) + 1"
  let ?K = "\<lambda>r. clockMonth ?y ?m (BacktestRow.time r)"
  let ?s = "runLoop (inp\<lparr>history := p0 # pre\<rparr>)"
  let ?s' = "runLoop (inp\<lparr>history := (p0 # pre) @ [p]\<rparr>)"
  let ?R = "runBacktest (inp\<lparr>history := p0 # pre\<rparr>)"
  let ?R' = "runBacktest (inp\<lparr>history := (p0 # pre) @ [p]\<rparr>)"
  let ?k = "clockMonth ?y ?m (HistoryPoint.time p)"
  let ?h = "if ?k > 0 \<and> ?k \<notin> lossMonths ?s then haircutOf ?k else 0"
  let ?q = "strategyReturnPct (payoff inp) (baseCapital inp) ret"
  let ?w = "periodAmount (frequency inp) (monthlyWithdrawal inp)"
  let ?i = "periodAmount (frequency inp) (investmentOf inp)"
  have R: "rows ?R = rowsAcc ?s" "equity (chart ?R) = equityPoints ?s"
    using assms(2,3) by (simp_all add: runBacktest_rows)
  have R': "rows ?R' = rowsAcc ?s'" "equity (chart ?R') = equityPoints ?s'"
    using assms(2,3) runBacktest_rows [of "(p0 # pre) @ [p]" inp] by simp_all
  have ci: "clockInvariant ?y ?m ?s" using assms(1) by (rule runLoop_clock)
  then have a: "lossBaseYear ?s = Some ?y" "lossBaseMonth ?s = Some ?m"
    and M: "lossMonths ?s = set (map ?K (filter lossEvent (rowsAcc ?s)))"
    and d: "distinct (map ?K (filter lossEvent (rowsAcc ?s)))"
    by (simp_all add: clockInvariant_def)
  have rec: "recorded ?s" by (rule runLoop_recorded)
  then have ne: "equityPoints ?s \<noteq> []"
    and cw: "curWith ?s = capitalWith (last (equityPoints ?s))"
    and cwo: "curWithout ?s = capitalWithout (last (equityPoints ?s))"
    by (simp_all add: recorded_def)
  have f: "\<forall>r \<in> set (rows (runBacktest (inp\<lparr>history := [p0]\<rparr>))). \<not> lossEvent r"
  proof -
    let ?s0 = "runLoop (inp\<lparr>history := [p0]\<rparr>)"
    have "clockInvariant ?y ?m ?s0" using assms(1) by (rule runLoop_clock)
    then have "lossMonths ?s0 = set (map ?K (filter lossEvent (rowsAcc ?s0)))"
      by (simp add: clockInvariant_def)
    moreover have "lossMonths ?s0 = {}"
      unfolding runLoop_history using assms(1) by (simp add: backtestLoop_def first_lossMonths)
    ultimately have "filter lossEvent (rowsAcc ?s0) = []" by simp
    moreover have "rows (runBacktest (inp\<lparr>history := [p0]\<rparr>)) = rowsAcc ?s0"
      using assms(2,3) by (simp add: runBacktest_rows)
    ultimately show ?thesis by (simp add: filter_empty_conv)
  qed
  have st: "returnPct p = Some (Num ret) \<longrightarrow>
          (\<exists>row e. rows ?R' = rows ?R @ [row] \<and>
             equity (chart ?R') = equity (chart ?R) @ [e] \<and>
             capitalWithout e = capitalWithout (last (equity (chart ?R))) * (1 + ?q) * (1 - ?h) \<and>
             capitalWith e = capitalWith (last (equity (chart ?R))) * (1 + ?q) * (1 - ?h) - ?w + ?i \<and>
             capital row = capitalWith e \<and>
             BacktestRow.time row = HistoryPoint.time p \<and>
             lossEvent row = (?h > 0) \<and> 0 \<le> ?h \<and> ?h \<le> 99 / 100)"
  proof
    assume r: "returnPct p = Some (Num ret)"
    have sb: "setLossBase True (HistoryPoint.time p) ?s = ?s"
      using a by (simp add: setLossBase_id)
    let ?t = "periodStep (payoff inp) (baseCapital inp) True ?w ?i (HistoryPoint.time p) ret ?s"
    have e: "?s' = ?t"
      unfolding runLoop_append using assms(1,3) by (simp add: step_finite [OF r] sb)
    note pc = periodStep_clock [OF ci, of "payoff inp" "baseCapital inp" ?w ?i "HistoryPoint.time p" ret]
    obtain row where row: "rowsAcc ?t = rowsAcc ?s @ [row]"
      "BacktestRow.time row = HistoryPoint.time p" "capital row = curWith ?t"
      using periodStep_row [of "payoff inp" "baseCapital inp" True ?w ?i "HistoryPoint.time p" ret ?s]
      by blast
    have le: "lossEvent row = (?h > 0)" using pc(3) row(1) by simp
    define e' where "e' = \<lparr>EquityPoint.time = getTime (HistoryPoint.time p),
         capitalWith = curWith ?t, capitalWithout = curWithout ?t\<rparr>"
    have eq: "equityPoints ?t = equityPoints ?s @ [e']"
      unfolding e'_def by (rule periodStep_equity)
    have hb: "0 \<le> ?h" "?h \<le> 99 / 100" using haircutOf_bounds by simp_all
    have "rows ?R' = rows ?R @ [row] \<and>
             equity (chart ?R') = equity (chart ?R) @ [e'] \<and>
             capitalWithout e' = capitalWithout (last (equity (chart ?R))) * (1 + ?q) * (1 - ?h) \<and>
             capitalWith e' = capitalWith (last (equity (chart ?R))) * (1 + ?q) * (1 - ?h) - ?w + ?i \<and>
             capital row = capitalWith e' \<and>
             BacktestRow.time row = HistoryPoint.time p \<and>
             lossEvent row = (?h > 0) \<and> 0 \<le> ?h \<and> ?h \<le> 99 / 100"
      unfolding R R' e
      using row eq le hb pc(1,2) cw cwo by (simp add: e'_def)
    then show "\<exists>row e. rows ?R' = rows ?R @ [row] \<and>
             equity (chart ?R') = equity (chart ?R) @ [e] \<and>
             capitalWithout e = capitalWithout (last (equity (chart ?R))) * (1 + ?q) * (1 - ?h) \<and>
             capitalWith e = capitalWith (last (equity (chart ?R))) * (1 + ?q) * (1 - ?h) - ?w + ?i \<and>
             capital row = capitalWith e \<and>
             BacktestRow.time row = HistoryPoint.time p \<and>
             lossEvent row = (?h > 0) \<and> 0 \<le> ?h \<and> ?h \<le> 99 / 100"
      by blast
  qed
  show ?thesis
    unfolding Let_def
    using a M f ne st d unfolding R by simp
qed


lemma sample_step1:
  "backtestStep flatCurve 1000 True 0 0 janPoint (initialState 1000) = sampleState1"
  by (simp add: backtestStep_def janPoint_def setLossBase_def placeholderStep_def
        initialState_def sampleState1_def jan2020_def anchorRow_def anchorPoint_def
        anchorEquity_def Let_def)

lemma sample_interpolate: "linearInterpolate 0 (variations flatCurve) (returns flatCurve) = 0"
  by (simp add: linearInterpolate_def flatCurve_def)

lemma sample_loss2: "lossInjection True (Some 2020) (Some 1) {} jun2020 = (2 / 100, True, {6})"
  by (simp add: lossInjection_def jun2020_def Let_def)

lemma sample_loss3: "lossInjection True (Some 2020) (Some 1) {6} oct2020 = (9 / 100, True, {10, 6})"
  by (simp add: lossInjection_def oct2020_def Let_def)

lemma sample_step2:
  "backtestStep flatCurve 1000 True 0 0 junPoint sampleState1 = sampleState2"
  by (simp add: backtestStep_def junPoint_def setLossBase_def periodStep_def
        sampleState1_def sampleState2_def sample_interpolate sample_loss2 Let_def)

lemma sample_step3:
  "map lossEvent (rowsAcc (backtestStep flatCurve 1000 True 0 0 octPoint sampleState2)) =
     [False, True, True]"
  "map capital (rowsAcc (backtestStep flatCurve 1000 True 0 0 octPoint sampleState2)) =
     [1000, 980, 980 * 91 / 100]"
  by (simp_all add: backtestStep_def octPoint_def setLossBase_def periodStep_def
        sampleState2_def sample_interpolate sample_loss3 anchorRow_def Let_def)

theorem loss_clock_witness:
  "applyLosses sampleInputLosses \<and> length (variations (payoff sampleInputLosses)) \<noteq> 0 \<and>
   baseCapital sampleInputLosses > 0 \<and> returnPct junPoint = Some (Num 0) \<and>
   lossBaseYear (runLoop (sampleInputLosses\<lparr>history := [janPoint]\<rparr>)) = Some 2020 \<and>
   lossBaseMonth (runLoop (sampleInputLosses\<lparr>history := [janPoint]\<rparr>)) = Some 1 \<and>
   (\<exists>row e.
      rows (runBacktest (sampleInputLosses\<lparr>history := [janPoint] @ [junPoint]\<rparr>)) =
        rows (runBacktest (sampleInputLosses\<lparr>history := [janPoint]\<rparr>)) @ [row] \<and>
      equity (chart (runBacktest (sampleInputLosses\<lparr>history := [janPoint] @ [junPoint]\<rparr>))) =
        equity (chart (runBacktest (sampleInputLosses\<lparr>history := [janPoint]\<rparr>))) @ [e] \<and>
      capitalWithout e = 980 \<and> capitalWith e = 980 \<and> lossEvent row)"
proof -
  have a: "applyLosses sampleInputLosses" "length (variations (payoff sampleInputLosses)) \<noteq> 0"
    "baseCapital sampleInputLosses > 0"
    by (simp_all add: sampleInputLosses_def sampleInput_def flatCurve_def)
  have r: "returnPct junPoint = Some (Num 0)" by (simp add: junPoint_def)
  have l: "runLoop (sampleInputLosses\<lparr>history := [janPoint]\<rparr>) = sampleState1"
    by (simp add: runLoop_def sampleInputLosses_def sampleInput_def backtestLoop_def
          sample_step1)
  have "[janPoint] \<noteq> []" by simp
  from runBacktest_rows [OF this a(2,3)]
  have R: "rows (runBacktest (sampleInputLosses\<lparr>history := [janPoint]\<rparr>)) =
        [anchorRow jan2020 1000]"
    "equity (chart (runBacktest (sampleInputLosses\<lparr>history := [janPoint]\<rparr>))) =
        [anchorEquity jan2020 1000]"
    unfolding l by (simp_all add: sampleState1_def)
  have k: "clockMonth 2020 1 (HistoryPoint.time junPoint) = 6"
    by (simp add: clockMonth_def junPoint_def jun2020_def)
  have q: "strategyReturnPct (payoff sampleInputLosses) (baseCapital sampleInputLosses) 0 = 0"
    by (simp add: strategyReturnPct_def sampleInputLosses_def sampleInput_def flatCurve_def
          linearInterpolate_def)
  have y: "getFullYear (HistoryPoint.time janPoint) = 2020"
    "getMonth (HistoryPoint.time janPoint) + 1 = 1"
    by (simp_all add: janPoint_def jan2020_def)
  have w: "periodAmount (frequency sampleInputLosses) (monthlyWithdrawal sampleInputLosses) = 0"
    "periodAmount (frequency sampleInputLosses) (investmentOf sampleInputLosses) = 0"
    by (simp_all add: periodAmount_def investmentOf_def sampleInputLosses_def sampleInput_def)
  have h: "haircutOf 6 = 2 / 100" by (simp add: haircutOf_def)
  from loss_clock [OF a, where ?p0.0 = janPoint and pre = "[]" and p = junPoint and ret = 0] r
  show ?thesis
    unfolding Let_def y k q w R
    using a by (auto simp: h anchorRow_def anchorEquity_def)
qed

text \<open>
  A history of January (no return), June and October 2020. The code takes January for the
  origin: June is month 6 and costs 2 percent, October is month 10 and costs 9 percent.
  With the origin at the first period with a return, June, the months would be 1 and 5 and
  nothing would fire; and a month 10 is not also a multiple of 6.
\<close>

theorem loss_clock_counterexample:
  "map lossEvent (rows (runBacktest sampleInputLosses)) = [False, True, True] \<and>
   map capital (rows (runBacktest sampleInputLosses)) = [1000, 980, 980 * 91 / 100] \<and>
   map (\<lambda>p. specHaircut (specClockMonth sampleHistory (HistoryPoint.time p)))
     sampleHistory = [0, 0, 0] \<and>
   specHaircut 10 = 0"
proof -
  have l: "runLoop sampleInputLosses =
        backtestStep flatCurve 1000 True 0 0 octPoint sampleState2"
    by (simp add: runLoop_def sampleInputLosses_def sampleInput_def sampleHistory_def
          backtestLoop_def sample_step1 sample_step2)
  have r: "rows (runBacktest sampleInputLosses) = rowsAcc (runLoop sampleInputLosses)"
    by (simp add: runBacktest_def Let_def sampleInputLosses_def sampleInput_def
          sampleHistory_def flatCurve_def)
  have s: "map (\<lambda>p. specHaircut (specClockMonth sampleHistory (HistoryPoint.time p)))
     sampleHistory = [0, 0, 0]" "specHaircut 10 = 0"
    by (simp_all add: specHaircut_def specClockMonth_def sampleHistory_def janPoint_def
          junPoint_def octPoint_def finiteReturn_def clockMonth_def jan2020_def jun2020_def
          oct2020_def)
  show ?thesis unfolding r l by (simp add: sample_step3 s)
qed

section \<open>Break-evens\<close>

lemma toFixed_large: "\<bar>y\<bar> \<ge> 10 ^ 21 \<Longrightarrow> toFixed d y = y"
  by (simp add: toFixed_def)

lemma toFixed_idem: "toFixed d (toFixed d x) = toFixed d x"
proof (cases "\<bar>x\<bar> \<ge> 10 ^ 21")
  case True
  then show ?thesis by (simp add: toFixed_large)
next
  case False
  define n where "n = \<lfloor>\<bar>x\<bar> * 10 ^ d + 1 / 2\<rfloor>"
  define y where "y = sgn x * (of_int n / 10 ^ d)"
  have y: "toFixed d x = y" using False by (simp add: toFixed_def y_def n_def)
  have "toFixed d y = y"
  proof (cases "\<bar>y\<bar> \<ge> 10 ^ 21")
    case True
    then show ?thesis by (rule toFixed_large)
  next
    case False
    have "y * 10 ^ d = sgn x * of_int n" by (simp add: y_def)
    also have "\<dots> = of_int ((if x < 0 then - 1 else if x = 0 then 0 else 1) * n)"
      by (simp add: sgn_if)
    finally have "y * 10 ^ d = of_int ((if x < 0 then - 1 else if x = 0 then 0 else 1) * n)" .
    moreover have "\<bar>y\<bar> < 10 ^ 21" using False by simp
    ultimately show ?thesis by (rule toFixed_exact)
  qed
  then show ?thesis by (simp only: y)
qed

lemma breakEvenStep_cross:
  assumes "crossesZero (payoffData ! i) (payoffData ! (i + 1))"
  shows "breakEvenStep payoffData i st =
     (if toFixed 4 (moveAt0 (payoffData ! i) (payoffData ! (i + 1))) \<in> set (fst st) then st
      else (fst st @ [toFixed 4 (moveAt0 (payoffData ! i) (payoffData ! (i + 1)))],
            snd st @ [toFixed 4 (moveAt0 (payoffData ! i) (payoffData ! (i + 1)))]))"
  using assms
  by (auto simp: breakEvenStep_def crossesZero_def moveAt0_def Let_def toFixed_idem)

lemma breakEvenStep_nocross:
  "\<not> crossesZero (payoffData ! i) (payoffData ! (i + 1)) \<Longrightarrow> breakEvenStep payoffData i st = st"
  by (auto simp: breakEvenStep_def crossesZero_def Let_def)

lemma crossings_Suc:
  "crossings d (Suc n) =
     (if crossesZero (d ! n) (d ! (n + 1))
      then insert (toFixed 4 (moveAt0 (d ! n) (d ! (n + 1)))) (crossings d n)
      else crossings d n)"
  by (auto simp: crossings_def less_Suc_eq)

lemma scan_invariant:
  "fst (fold (breakEvenStep d) [0..<n] ([], [])) = snd (fold (breakEvenStep d) [0..<n] ([], [])) \<and>
   distinct (snd (fold (breakEvenStep d) [0..<n] ([], []))) \<and>
   set (snd (fold (breakEvenStep d) [0..<n] ([], []))) = crossings d n"
proof (induction n)
  case 0
  then show ?case by (simp add: crossings_def)
next
  case (Suc n)
  let ?st = "fold (breakEvenStep d) [0..<n] ([], [])"
  have f: "fold (breakEvenStep d) [0..<Suc n] ([], []) = breakEvenStep d n ?st" by simp
  show ?case
  proof (cases "crossesZero (d ! n) (d ! (n + 1))")
    case True
    show ?thesis unfolding f breakEvenStep_cross [OF True] crossings_Suc
      using Suc True by auto
  next
    case False
    show ?thesis unfolding f breakEvenStep_nocross [OF False] crossings_Suc
      using Suc False by simp
  qed
qed

text \<open>
  C2, as the code has it. A pair of consecutive samples crosses zero when the left profit
  is at most zero and the right one positive, or the left profit is at least zero and the
  right one negative: an exact zero counts on the left sample only. The break-evens of
  \<open>calculateStrategyStats\<close> are exactly the interpolated moves
  \<open>leftMove + t * (rightMove - leftMove)\<close>, \<open>t = (0 - leftProfit) / (rightProfit - leftProfit)\<close>,
  of the crossing pairs, each rounded to 4 decimals; the list has no duplicates and is
  sorted ascending.
\<close>

theorem breakEvens_interpolated:
  "sorted (breakEvens (calculateStrategyStats legs payoffData currentPrice)) \<and>
   distinct (breakEvens (calculateStrategyStats legs payoffData currentPrice)) \<and>
   set (breakEvens (calculateStrategyStats legs payoffData currentPrice)) =
     {toFixed 4 (moveAt0 (payoffData ! i) (payoffData ! (i + 1))) | i.
        i + 1 < length payoffData \<and> crossesZero (payoffData ! i) (payoffData ! (i + 1))}"
proof (cases "length payoffData = 0")
  case True
  then show ?thesis by (simp add: calculateStrategyStats_def)
next
  case False
  have b: "breakEvens (calculateStrategyStats legs payoffData currentPrice) =
        sort (scanBreakEvens payoffData)"
    using False by (simp add: calculateStrategyStats_def Let_def)
  have c: "crossings payoffData (length payoffData - 1) =
     {toFixed 4 (moveAt0 (payoffData ! i) (payoffData ! (i + 1))) | i.
        i + 1 < length payoffData \<and> crossesZero (payoffData ! i) (payoffData ! (i + 1))}"
    by (auto simp: crossings_def less_diff_conv)
  have i: "distinct (scanBreakEvens payoffData)"
    "set (scanBreakEvens payoffData) = crossings payoffData (length payoffData - 1)"
    using scan_invariant [of payoffData "length payoffData - 1"]
    by (simp_all only: scanBreakEvens_def)
  have "sorted (sort (scanBreakEvens payoffData))" by simp
  moreover have "distinct (sort (scanBreakEvens payoffData))" using i(1) by simp
  moreover have "set (sort (scanBreakEvens payoffData)) =
     {toFixed 4 (moveAt0 (payoffData ! i) (payoffData ! (i + 1))) | i.
        i + 1 < length payoffData \<and> crossesZero (payoffData ! i) (payoffData ! (i + 1))}"
    using i(2) c by simp
  ultimately show ?thesis unfolding b by blast
qed

theorem breakEvens_interpolated_witness:
  "crossesZero (crossingCurve ! 0) (crossingCurve ! (0 + 1)) \<and>
   toFixed 4 (moveAt0 (crossingCurve ! 0) (crossingCurve ! (0 + 1))) = - 1 / 2 \<and>
   - 1 / 2 \<in> set (breakEvens (calculateStrategyStats [] crossingCurve 30))"
proof -
  have c: "crossesZero (crossingCurve ! 0) (crossingCurve ! (0 + 1))"
    by (simp add: crossingCurve_def crossesZero_def)
  have m: "toFixed 4 (moveAt0 (crossingCurve ! 0) (crossingCurve ! (0 + 1))) = - 1 / 2"
    by (simp add: crossingCurve_def moveAt0_def toFixed_def)
  have l: "0 + 1 < length crossingCurve" by (simp add: crossingCurve_def)
  from breakEvens_interpolated [of "[]" crossingCurve 30] c m l
  show ?thesis by (metis (mono_tags, lifting) mem_Collect_eq)
qed

text \<open>
  A curve that rises from \<open>-1\<close> to an exact zero at its last sample: the profit reaches
  zero at the move 1, and no break-even is reported.
\<close>

theorem breakEvens_touching_counterexample:
  "crossesZeroInclusive (touchingCurve ! 0) (touchingCurve ! 1) \<and>
   toFixed 4 (moveAt0 (touchingCurve ! 0) (touchingCurve ! 1)) = 1 \<and>
   breakEvens (calculateStrategyStats [] touchingCurve 30) = []"
  by (simp add: touchingCurve_def crossesZeroInclusive_def moveAt0_def toFixed_def
        calculateStrategyStats_def scanBreakEvens_def breakEvenStep_def Let_def)

section \<open>The IRR solver\<close>































end
